theory Spec2Isabelle
  imports Complex_Main
begin

section \<open>The scatter-plot helper of \<^verbatim>\<open>vis/plotting/scatter.py\<close>\<close>

text \<open>
  The module has one function, \<^verbatim>\<open>plot(A, plt, s, c, **kwargs)\<close>, and one module-level
  dictionary, \<^verbatim>\<open>camera_angles\<close>. The function resolves eight keyword options against
  their defaults, asks the plotting library for a new figure, and then drives either a
  2-D or a 3-D axes object through a fixed sequence of calls.

  The expressions that \<^verbatim>\<open>plot\<close> evaluates itself (tuple subscripts, column selection,
  \<^verbatim>\<open>+ 1\<close>, \<^verbatim>\<open>str.format\<close>) raise as Python does, and a raise leaves the state as the
  calls before it made it.

  The plotting library is not part of the module. A figure and an axes object remember
  what the calls of \<^verbatim>\<open>plot\<close> did to them. The bound setters follow the library: a pair of
  integers is put in order, a pair of equal integers is widened, a tuple of another length
  raises. What the library computes by itself (the bound of an axis after scattering, its
  own numbers, the widening, what a setter makes of any other value) is carried as
  functions by the \<^verbatim>\<open>plt\<close> handle, so that every statement below holds whatever these
  are. In the same way the part of \<^verbatim>\<open>str.format\<close> that is not written out here is a
  function carried by the Python runtime.

  The marker size \<^verbatim>\<open>s\<close> and the colour \<^verbatim>\<open>c\<close> are only handed on to the library, so
  their types are left open and their default values (\<^verbatim>\<open>1\<close> and the tableau blue) are
  the caller's business.
\<close>

subsection \<open>Python values and errors\<close>

datatype error =
  TypeError | IndexError | AttributeError | ValueError | KeyError | OverflowError
  | OtherError string

text \<open>
  The values a keyword option can hold: the types the docstring names (\<^verbatim>\<open>str\<close>,
  \<^verbatim>\<open>int\<close>, tuples of \<^verbatim>\<open>int\<close>) and \<^verbatim>\<open>None\<close>.
\<close>

datatype pyval = PyNone | PyStr string | PyInt int | PyInts "int list"

text \<open>What a subscript \<^verbatim>\<open>v[k]\<close> of such a value yields: an integer or a one-character string.\<close>

datatype item = ItemInt int | ItemStr string

type_synonym kwargs = "string \<rightharpoonup> pyval"

definition bindS :: "'e + 'x \<Rightarrow> ('x \<Rightarrow> 'e + 'y) \<Rightarrow> 'e + 'y" where
  "bindS m f = (case m of Inl e \<Rightarrow> Inl e | Inr x \<Rightarrow> f x)"

text \<open>\<^verbatim>\<open>kwargs[k] if (kwargs is not None and k in kwargs) else d\<close>; \<^verbatim>\<open>**kwargs\<close> is always a dictionary.\<close>

definition kw_get :: "kwargs \<Rightarrow> string \<Rightarrow> pyval \<Rightarrow> pyval" where
  "kw_get kwargs k d = (case kwargs k of Some v \<Rightarrow> v | None \<Rightarrow> d)"

text \<open>\<^verbatim>\<open>v[k]\<close> for a literal index \<^verbatim>\<open>k\<close> (0, 1 or 2 in the source).\<close>

definition getitem :: "pyval \<Rightarrow> nat \<Rightarrow> error + item" where
  "getitem v k =
     (case v of
        PyInts xs \<Rightarrow> if k < length xs then Inr (ItemInt (xs ! k)) else Inl IndexError
      | PyStr t \<Rightarrow> if k < length t then Inr (ItemStr [t ! k]) else Inl IndexError
      | PyInt n \<Rightarrow> Inl TypeError
      | PyNone \<Rightarrow> Inl TypeError)"

text \<open>\<^verbatim>\<open>i + 1\<close>: a string plus an integer is a \<^verbatim>\<open>TypeError\<close>.\<close>

definition add_one :: "item \<Rightarrow> error + int" where
  "add_one i = (case i of ItemInt n \<Rightarrow> Inr (n + 1) | ItemStr t \<Rightarrow> Inl TypeError)"

subsection \<open>The point matrix\<close>

text \<open>
  An \<open>n \<times> m\<close> array, kept column by column; \<^verbatim>\<open>A.shape[1]\<close> is the number of columns.
\<close>

record 'a ndarray =
  nrows :: nat
  columns :: "'a list list"

definition shape1 :: "'a ndarray \<Rightarrow> nat" where
  "shape1 A = length (columns A)"

text \<open>
  \<^verbatim>\<open>A[:, i]\<close>: an integer from \<open>-m\<close> to \<open>m - 1\<close> selects a column, counting from the end
  when negative; any other integer that fits the 64-bit index type, and a string, is an
  \<^verbatim>\<open>IndexError\<close>; an integer that does not fit is an \<^verbatim>\<open>OverflowError\<close>.
\<close>

definition column :: "'a ndarray \<Rightarrow> item \<Rightarrow> error + 'a list" where
  "column A i =
     (case i of
        ItemInt j \<Rightarrow>
          (let m = int (shape1 A) in
           if j < - (2 ^ 63) \<or> 2 ^ 63 \<le> j then Inl OverflowError
           else if - m \<le> j \<and> j < m then Inr (columns A ! nat (if j < 0 then j + m else j))
           else Inl IndexError)
      | ItemStr t \<Rightarrow> Inl IndexError)"

subsection \<open>\<^verbatim>\<open>str.format\<close> with one integer argument\<close>

definition digit_char :: "nat \<Rightarrow> char" where
  "digit_char d = ''0123456789'' ! d"

fun digits_nat :: "nat \<Rightarrow> string" where
  "digits_nat n = (if n < 10 then [digit_char n] else digits_nat (n div 10) @ [digit_char (n mod 10)])"

declare digits_nat.simps [simp del]

definition str_int :: "int \<Rightarrow> string" where
  "str_int i = (if i < 0 then CHR ''-'' # digits_nat (nat (- i)) else digits_nat (nat i))"

text \<open>
  The template is scanned from left to right. \<^verbatim>\<open>{{\<close> and \<^verbatim>\<open>}}\<close> are literal braces; a
  lone \<^verbatim>\<open>}\<close> and an unclosed \<^verbatim>\<open>{\<close> are a \<^verbatim>\<open>ValueError\<close>; the replacement fields
  \<^verbatim>\<open>{}\<close>, \<^verbatim>\<open>{:}\<close> and \<^verbatim>\<open>{:d}\<close> are numbered automatically, so the first one takes the
  argument in decimal and a second one is an \<^verbatim>\<open>IndexError\<close>. At any other replacement
  field (explicit numbers, names, conversions, other format specifications) the scan
  stops with \<open>Outside\<close>: the template is outside the fragment written out here.
\<close>

datatype fmt_state = Text | Open | OpenColon | OpenColonD | Close

datatype scan_stop = Raises error | Outside

definition emit :: "string \<Rightarrow> scan_stop + string \<Rightarrow> scan_stop + string" where
  "emit t r = bindS r (\<lambda>out. Inr (t @ out))"

fun format_scan :: "fmt_state \<Rightarrow> bool \<Rightarrow> string \<Rightarrow> string \<Rightarrow> scan_stop + string" where
  "format_scan st used arg [] = (if st = Text then Inr [] else Inl (Raises ValueError))"
| "format_scan st used arg (ch # t) =
     (case st of
        Text \<Rightarrow>
          if ch = CHR ''{'' then format_scan Open used arg t
          else if ch = CHR ''}'' then format_scan Close used arg t
          else emit [ch] (format_scan Text used arg t)
      | Close \<Rightarrow>
          if ch = CHR ''}'' then emit ''}'' (format_scan Text used arg t)
          else Inl (Raises ValueError)
      | Open \<Rightarrow>
          if ch = CHR ''{'' then emit ''{'' (format_scan Text used arg t)
          else if ch = CHR ''}'' then
            (if used then Inl (Raises IndexError) else emit arg (format_scan Text True arg t))
          else if ch = CHR '':'' then format_scan OpenColon used arg t
          else Inl Outside
      | OpenColon \<Rightarrow>
          if ch = CHR ''d'' then format_scan OpenColonD used arg t
          else if ch = CHR ''}'' then
            (if used then Inl (Raises IndexError) else emit arg (format_scan Text True arg t))
          else Inl Outside
      | OpenColonD \<Rightarrow>
          if ch = CHR ''}'' then
            (if used then Inl (Raises IndexError) else emit arg (format_scan Text True arg t))
          else Inl Outside)"

text \<open>
  The Python runtime. Its one field is \<^verbatim>\<open>str.format\<close> on the templates outside the
  fragment: whatever Python returns or raises for the template and the integer.
\<close>

record python =
  format_other :: "string \<Rightarrow> int \<Rightarrow> error + string"

text \<open>\<^verbatim>\<open>template.format(n)\<close>.\<close>

definition format :: "python \<Rightarrow> string \<Rightarrow> int \<Rightarrow> error + string" where
  "format py template n =
     (case format_scan Text False (str_int n) template of
        Inr out \<Rightarrow> Inr out
      | Inl (Raises e) \<Rightarrow> Inl e
      | Inl Outside \<Rightarrow> format_other py template n)"

text \<open>
  \<^verbatim>\<open>label_prefix.format(axes[k] + 1)\<close>: the attribute \<^verbatim>\<open>format\<close> is looked up first
  (only a string has it), then the argument is evaluated, then the method is called.
\<close>

definition label_text :: "python \<Rightarrow> pyval \<Rightarrow> pyval \<Rightarrow> nat \<Rightarrow> error + string" where
  "label_text py label_prefix axes k =
     (case label_prefix of
        PyStr template \<Rightarrow>
          bindS (getitem axes k) (\<lambda>i. bindS (add_one i) (\<lambda>n. format py template n))
      | PyNone \<Rightarrow> Inl AttributeError
      | PyInt n \<Rightarrow> Inl AttributeError
      | PyInts xs \<Rightarrow> Inl AttributeError)"

text \<open>\<^verbatim>\<open>A[:, axes[k]]\<close>.\<close>

definition selected :: "'a ndarray \<Rightarrow> pyval \<Rightarrow> nat \<Rightarrow> error + 'a list" where
  "selected A axes k = bindS (getitem axes k) (\<lambda>i. column A i)"

subsection \<open>The plotting library\<close>

datatype projection = Rectilinear | Projection3D

datatype axis = XAxis | YAxis | ZAxis

text \<open>
  What a bound setter is handed: the pair the library computed itself and \<^verbatim>\<open>plot\<close> read
  with the getter, or the value the caller gave. A bound that an axis holds is a pair of
  the library's numbers.
\<close>

datatype 'a bound = EngineBound "'a \<times> 'a" | GivenBound pyval

record ('a, 's, 'c) collection =
  coords :: "'a list list"
  sizes :: 's
  colors :: 'c

text \<open>
  An axes object. A field that a setter writes is \<open>None\<close> until the setter has been
  called; the library's own default is in force until then.
\<close>

record ('a, 's, 'c) axes_obj =
  projection :: projection
  collections :: "('a, 's, 'c) collection list"
  ax_xbound :: "('a \<times> 'a) option"
  ax_ybound :: "('a \<times> 'a) option"
  ax_zbound :: "('a \<times> 'a) option"
  ax_xlabel :: "(string \<times> pyval) option"
  ax_ylabel :: "(string \<times> pyval) option"
  ax_zlabel :: "(string \<times> pyval) option"
  ax_x_rotate_label :: "bool option"
  ax_y_rotate_label :: "bool option"
  ax_z_rotate_label :: "bool option"
  ax_view :: "(item \<times> item) option"

record ('a, 's, 'c) figure_obj =
  fig_suptitle :: "pyval option"
  fig_axes :: "('a, 's, 'c) axes_obj list"

text \<open>
  What \<^verbatim>\<open>plot\<close> can reach: the module's own global \<^verbatim>\<open>camera_angles\<close> and the figures
  the plotting library holds. A figure handle is the figure's position in that list, an
  axes handle is a figure handle and a position in the figure's axes.
\<close>

type_synonym camera_table = "(string \<times> (string \<times> (int \<times> int)) list) list"

record ('a, 's, 'c) world =
  camera_angles :: camera_table
  figures :: "('a, 's, 'c) figure_obj list"

type_synonym fig_handle = nat
type_synonym ax_handle = "nat \<times> nat"

text \<open>
  The \<^verbatim>\<open>plt\<close> handle carries what the library computes on its own:
  \<^item> \<open>auto_bound\<close>, the bound it gives an axis from the collections scattered so far;
  \<^item> \<open>number\<close>, an integer as one of its numbers;
  \<^item> \<open>nonsingular\<close>, the interval it makes of two equal limits;
  \<^item> \<open>bound_of_other\<close>, what a bound setter makes of a value that is neither a tuple of
    integers nor a string of another length than two, given the bound in force: the new
    bound, or the error raised.
\<close>

record ('a, 's, 'c) pyplot =
  auto_bound :: "axis \<Rightarrow> ('a, 's, 'c) collection list \<Rightarrow> 'a \<times> 'a"
  number :: "int \<Rightarrow> 'a"
  nonsingular :: "int \<Rightarrow> 'a \<times> 'a"
  bound_of_other :: "pyval \<Rightarrow> 'a \<times> 'a \<Rightarrow> error + 'a \<times> 'a"

definition new_axes :: "projection \<Rightarrow> ('a, 's, 'c) axes_obj" where
  "new_axes p =
     \<lparr>projection = p, collections = [], ax_xbound = None, ax_ybound = None, ax_zbound = None,
      ax_xlabel = None, ax_ylabel = None, ax_zlabel = None,
      ax_x_rotate_label = None, ax_y_rotate_label = None, ax_z_rotate_label = None, ax_view = None\<rparr>"

definition the_figure :: "('a, 's, 'c) world \<Rightarrow> fig_handle \<Rightarrow> ('a, 's, 'c) figure_obj" where
  "the_figure w fig = figures w ! fig"

definition the_axes :: "('a, 's, 'c) world \<Rightarrow> ax_handle \<Rightarrow> ('a, 's, 'c) axes_obj" where
  "the_axes w ax = fig_axes (figures w ! fst ax) ! snd ax"

definition upd_figure ::
  "fig_handle \<Rightarrow> (('a, 's, 'c) figure_obj \<Rightarrow> ('a, 's, 'c) figure_obj) \<Rightarrow>
   ('a, 's, 'c) world \<Rightarrow> ('a, 's, 'c) world" where
  "upd_figure fig f w = w\<lparr>figures := (figures w)[fig := f (figures w ! fig)]\<rparr>"

definition upd_axes ::
  "ax_handle \<Rightarrow> (('a, 's, 'c) axes_obj \<Rightarrow> ('a, 's, 'c) axes_obj) \<Rightarrow>
   ('a, 's, 'c) world \<Rightarrow> ('a, 's, 'c) world" where
  "upd_axes ax f w =
     upd_figure (fst ax) (\<lambda>g. g\<lparr>fig_axes := (fig_axes g)[snd ax := f (fig_axes g ! snd ax)]\<rparr>) w"

text \<open>\<^verbatim>\<open>plt.figure()\<close>: a new, empty figure.\<close>

definition figure :: "('a, 's, 'c) world \<Rightarrow> fig_handle \<times> ('a, 's, 'c) world" where
  "figure w =
     (length (figures w), w\<lparr>figures := figures w @ [\<lparr>fig_suptitle = None, fig_axes = []\<rparr>]\<rparr>)"

text \<open>\<^verbatim>\<open>fig.suptitle(t)\<close>.\<close>

definition suptitle :: "fig_handle \<Rightarrow> pyval \<Rightarrow> ('a, 's, 'c) world \<Rightarrow> ('a, 's, 'c) world" where
  "suptitle fig t w = upd_figure fig (\<lambda>g. g\<lparr>fig_suptitle := Some t\<rparr>) w"

text \<open>
  \<^verbatim>\<open>fig.gca()\<close>: the current axes of the figure; a figure without axes gets new
  rectilinear ones.
\<close>

definition gca :: "fig_handle \<Rightarrow> ('a, 's, 'c) world \<Rightarrow> ax_handle \<times> ('a, 's, 'c) world" where
  "gca fig w =
     (let n = length (fig_axes (figures w ! fig)) in
      if n = 0 then
        ((fig, 0), upd_figure fig (\<lambda>g. g\<lparr>fig_axes := fig_axes g @ [new_axes Rectilinear]\<rparr>) w)
      else ((fig, n - 1), w))"

text \<open>\<^verbatim>\<open>Axes3D(fig)\<close>: new 3-D axes on the figure.\<close>

definition Axes3D :: "fig_handle \<Rightarrow> ('a, 's, 'c) world \<Rightarrow> ax_handle \<times> ('a, 's, 'c) world" where
  "Axes3D fig w =
     ((fig, length (fig_axes (figures w ! fig))),
      upd_figure fig (\<lambda>g. g\<lparr>fig_axes := fig_axes g @ [new_axes Projection3D]\<rparr>) w)"

text \<open>\<^verbatim>\<open>ax.scatter(..., s=s, c=c)\<close>.\<close>

definition scatter ::
  "ax_handle \<Rightarrow> 'a list list \<Rightarrow> 's \<Rightarrow> 'c \<Rightarrow> ('a, 's, 'c) world \<Rightarrow> ('a, 's, 'c) world" where
  "scatter ax xs s c w =
     upd_axes ax (\<lambda>a. a\<lparr>collections := collections a @ [\<lparr>coords = xs, sizes = s, colors = c\<rparr>]\<rparr>) w"

text \<open>
  \<^verbatim>\<open>ax.get_xbound()\<close> and its siblings: the bound that was set, or else the one the library
  computes from what has been scattered.
\<close>

definition get_xbound :: "('a, 's, 'c) pyplot \<Rightarrow> ax_handle \<Rightarrow> ('a, 's, 'c) world \<Rightarrow> 'a \<times> 'a" where
  "get_xbound plt ax w =
     (case ax_xbound (the_axes w ax) of
        Some b \<Rightarrow> b
      | None \<Rightarrow> auto_bound plt XAxis (collections (the_axes w ax)))"

definition get_ybound :: "('a, 's, 'c) pyplot \<Rightarrow> ax_handle \<Rightarrow> ('a, 's, 'c) world \<Rightarrow> 'a \<times> 'a" where
  "get_ybound plt ax w =
     (case ax_ybound (the_axes w ax) of
        Some b \<Rightarrow> b
      | None \<Rightarrow> auto_bound plt YAxis (collections (the_axes w ax)))"

definition get_zbound :: "('a, 's, 'c) pyplot \<Rightarrow> ax_handle \<Rightarrow> ('a, 's, 'c) world \<Rightarrow> 'a \<times> 'a" where
  "get_zbound plt ax w =
     (case ax_zbound (the_axes w ax) of
        Some b \<Rightarrow> b
      | None \<Rightarrow> auto_bound plt ZAxis (collections (the_axes w ax)))"

text \<open>
  What a bound setter makes of its argument, \<open>old\<close> being the bound in force. The library
  unpacks an iterable into \<^verbatim>\<open>lower, upper\<close>, which raises \<^verbatim>\<open>ValueError\<close> unless it has two
  elements; it puts the two limits in increasing order; and it widens two equal limits,
  since an axis cannot show an empty range. A bound that was read from the library is
  kept as it is.
\<close>

definition new_bound :: "('a, 's, 'c) pyplot \<Rightarrow> 'a \<times> 'a \<Rightarrow> 'a bound \<Rightarrow> error + 'a \<times> 'a" where
  "new_bound plt old arg =
     (case arg of
        EngineBound b \<Rightarrow> Inr b
      | GivenBound v \<Rightarrow>
          (case v of
             PyInts xs \<Rightarrow>
               (case xs of
                  [lo, hi] \<Rightarrow>
                    Inr (if lo = hi then nonsingular plt lo
                         else (number plt (min lo hi), number plt (max lo hi)))
                | _ \<Rightarrow> Inl ValueError)
           | PyStr t \<Rightarrow> if length t = 2 then bound_of_other plt v old else Inl ValueError
           | PyInt n \<Rightarrow> bound_of_other plt v old
           | PyNone \<Rightarrow> bound_of_other plt v old))"

text \<open>\<^verbatim>\<open>ax.set_xbound(b)\<close> and its siblings.\<close>

definition set_xbound ::
  "('a, 's, 'c) pyplot \<Rightarrow> ax_handle \<Rightarrow> 'a bound \<Rightarrow> ('a, 's, 'c) world \<Rightarrow>
   error + ('a, 's, 'c) world" where
  "set_xbound plt ax arg w =
     bindS (new_bound plt (get_xbound plt ax w) arg)
       (\<lambda>b. Inr (upd_axes ax (\<lambda>a. a\<lparr>ax_xbound := Some b\<rparr>) w))"

definition set_ybound ::
  "('a, 's, 'c) pyplot \<Rightarrow> ax_handle \<Rightarrow> 'a bound \<Rightarrow> ('a, 's, 'c) world \<Rightarrow>
   error + ('a, 's, 'c) world" where
  "set_ybound plt ax arg w =
     bindS (new_bound plt (get_ybound plt ax w) arg)
       (\<lambda>b. Inr (upd_axes ax (\<lambda>a. a\<lparr>ax_ybound := Some b\<rparr>) w))"

definition set_zbound ::
  "('a, 's, 'c) pyplot \<Rightarrow> ax_handle \<Rightarrow> 'a bound \<Rightarrow> ('a, 's, 'c) world \<Rightarrow>
   error + ('a, 's, 'c) world" where
  "set_zbound plt ax arg w =
     bindS (new_bound plt (get_zbound plt ax w) arg)
       (\<lambda>b. Inr (upd_axes ax (\<lambda>a. a\<lparr>ax_zbound := Some b\<rparr>) w))"

text \<open>\<^verbatim>\<open>ax.set_xlabel(text, fontsize=fs)\<close> and its siblings.\<close>

definition set_xlabel :: "ax_handle \<Rightarrow> string \<Rightarrow> pyval \<Rightarrow> ('a, 's, 'c) world \<Rightarrow> ('a, 's, 'c) world" where
  "set_xlabel ax t fs w = upd_axes ax (\<lambda>a. a\<lparr>ax_xlabel := Some (t, fs)\<rparr>) w"

definition set_ylabel :: "ax_handle \<Rightarrow> string \<Rightarrow> pyval \<Rightarrow> ('a, 's, 'c) world \<Rightarrow> ('a, 's, 'c) world" where
  "set_ylabel ax t fs w = upd_axes ax (\<lambda>a. a\<lparr>ax_ylabel := Some (t, fs)\<rparr>) w"

definition set_zlabel :: "ax_handle \<Rightarrow> string \<Rightarrow> pyval \<Rightarrow> ('a, 's, 'c) world \<Rightarrow> ('a, 's, 'c) world" where
  "set_zlabel ax t fs w = upd_axes ax (\<lambda>a. a\<lparr>ax_zlabel := Some (t, fs)\<rparr>) w"

text \<open>\<^verbatim>\<open>ax.xaxis.set_rotate_label(b)\<close> and its siblings.\<close>

definition set_rotate_label :: "ax_handle \<Rightarrow> axis \<Rightarrow> bool \<Rightarrow> ('a, 's, 'c) world \<Rightarrow> ('a, 's, 'c) world" where
  "set_rotate_label ax d b w =
     upd_axes ax
       (\<lambda>a. case d of
              XAxis \<Rightarrow> a\<lparr>ax_x_rotate_label := Some b\<rparr>
            | YAxis \<Rightarrow> a\<lparr>ax_y_rotate_label := Some b\<rparr>
            | ZAxis \<Rightarrow> a\<lparr>ax_z_rotate_label := Some b\<rparr>) w"

text \<open>\<^verbatim>\<open>ax.view_init(elev, azim)\<close>: the pair is kept as (elevation, azimuth).\<close>

definition view_init :: "ax_handle \<Rightarrow> item \<Rightarrow> item \<Rightarrow> ('a, 's, 'c) world \<Rightarrow> ('a, 's, 'c) world" where
  "view_init ax elev azim w = upd_axes ax (\<lambda>a. a\<lparr>ax_view := Some (elev, azim)\<rparr>) w"

subsection \<open>The module\<close>

text \<open>The module-level dictionary \<^verbatim>\<open>camera_angles\<close>, as the source initialises it.\<close>

definition camera_angles_init :: camera_table where
  "camera_angles_init =
     [(''dtlz2'', [(''3d'', (60, 20)), (''4d'', (-60, 30)), (''8d'', (22, 21))]),
      (''dtlz2-nbi'', [(''3d'', (60, 20)), (''4d'', (-60, 30)), (''8d'', (-60, 30))]),
      (''debmdk'', [(''3d'', (-30, 15)), (''4d'', (-20, 32)), (''8d'', (-60, 30))]),
      (''debmdk-nbi'', [(''3d'', (-60, 30)), (''4d'', (-60, 30)), (''8d'', (-60, 30))]),
      (''debmdk-all'', [(''3d'', (-60, 30)), (''4d'', (-60, 30)), (''8d'', (-60, 30))]),
      (''debmdk-all-nbi'', [(''3d'', (-60, 30)), (''4d'', (-60, 30)), (''8d'', (-60, 30))]),
      (''dtlz8'', [(''3d'', (-60, 30)), (''4d'', (-60, 30)), (''6d'', (-60, 30)), (''8d'', (-60, 30))]),
      (''dtlz8-nbi'', [(''3d'', (-60, 30)), (''4d'', (-60, 30)), (''6d'', (-60, 30)), (''8d'', (-60, 30))]),
      (''c2dtlz2'', [(''3d'', (45, 15)), (''4d'', (-20, 40)), (''5d'', (-25, 30)), (''8d'', (-25, 30))]),
      (''c2dtlz2-nbi'', [(''3d'', (45, 15)), (''4d'', (-20, 40)), (''5d'', (-25, 30)), (''8d'', (-25, 30))]),
      (''cdebmdk'', [(''3d'', (20, 15)), (''4d'', (-60, 30)), (''8d'', (-60, 30))]),
      (''cdebmdk-nbi'', [(''3d'', (20, 15)), (''4d'', (-60, 30)), (''8d'', (-60, 30))]),
      (''c0dtlz2'', [(''3d'', (20, 25)), (''4d'', (-60, 30)), (''8d'', (-60, 30))]),
      (''c0dtlz2-nbi'', [(''3d'', (20, 25)), (''4d'', (-60, 30)), (''8d'', (-60, 30))]),
      (''crash-nbi'', [(''3d'', (30, 25))]),
      (''crash-c1-nbi'', [(''3d'', (30, 25))]),
      (''crash-c2-nbi'', [(''3d'', (30, 25))]),
      (''gaa'', [(''10d'', (-60, 30))]),
      (''gaa-nbi'', [(''10d'', (-60, 30))])]"

text \<open>The state right after the module is imported: the table, and no figure yet.\<close>

definition world_init :: "('a, 's, 'c) world" where
  "world_init = \<lparr>camera_angles = camera_angles_init, figures = []\<rparr>"

text \<open>
  The eight options of \<^verbatim>\<open>plot\<close>, resolved against their defaults: each is
  \<^verbatim>\<open>kwargs[k] if (kwargs is not None and k in kwargs) else d\<close>.
\<close>

record config =
  label_prefix :: pyval
  label_fontsize :: pyval
  axes :: pyval
  euler :: pyval
  xbound :: pyval
  ybound :: pyval
  zbound :: pyval
  title :: pyval

definition resolve :: "kwargs \<Rightarrow> config" where
  "resolve kwargs =
     \<lparr>label_prefix = kw_get kwargs ''label_prefix'' (PyStr ''$f_{:d}$''),
      label_fontsize = kw_get kwargs ''label_fontsize'' (PyStr ''large''),
      axes = kw_get kwargs ''axes'' (PyInts [0, 1, 2]),
      euler = kw_get kwargs ''euler'' (PyInts [- 60, 30]),
      xbound = kw_get kwargs ''xbound'' PyNone,
      ybound = kw_get kwargs ''ybound'' PyNone,
      zbound = kw_get kwargs ''zbound'' PyNone,
      title = kw_get kwargs ''title'' PyNone\<rparr>"

definition config_keys :: "string set" where
  "config_keys =
     {''label_prefix'', ''label_fontsize'', ''axes'', ''euler'',
      ''xbound'', ''ybound'', ''zbound'', ''title''}"

text \<open>
  \<^verbatim>\<open>b.get_xbound() if xbound is None else xbound\<close>, the argument of a bound setter: \<open>v\<close> is
  the option and \<open>current\<close> what the getter returns.
\<close>

definition bound_arg :: "pyval \<Rightarrow> 'a \<times> 'a \<Rightarrow> 'a bound" where
  "bound_arg v current = (if v = PyNone then EngineBound current else GivenBound v)"

text \<open>
  \<^verbatim>\<open>plot(A, plt, s, c, **kwargs)\<close>, run by the Python runtime \<open>py\<close>. The result is the pair
  of handles or the error raised, together with the state the call leaves behind.
\<close>

definition plot ::
  "python \<Rightarrow> 'a ndarray \<Rightarrow> ('a, 's, 'c) pyplot option \<Rightarrow> 's \<Rightarrow> 'c \<Rightarrow> kwargs \<Rightarrow>
   ('a, 's, 'c) world \<Rightarrow> (error + fig_handle \<times> ax_handle) \<times> ('a, 's, 'c) world" where
  "plot py A plt s c kwargs w =
     (let cfg = resolve kwargs
      in case plt of
           Some engine \<Rightarrow>
             (let (fig, w) = figure w;
                  w = (if title cfg \<noteq> PyNone then suptitle fig (title cfg) w else w)
              in if shape1 A < 3 then
                   (let (ax, w) = gca fig w in
                    case bindS (selected A (axes cfg) 0) (\<lambda>x.
                         bindS (selected A (axes cfg) 1) (\<lambda>y. Inr [x, y])) of
                      Inl e \<Rightarrow> (Inl e, w)
                    | Inr xs \<Rightarrow>
                    (let w = scatter ax xs s c w
                     in case set_xbound engine ax
                               (bound_arg (xbound cfg) (get_xbound engine ax w)) w of
                          Inl e \<Rightarrow> (Inl e, w)
                        | Inr w \<Rightarrow>
                    (case set_ybound engine ax
                               (bound_arg (ybound cfg) (get_ybound engine ax w)) w of
                          Inl e \<Rightarrow> (Inl e, w)
                        | Inr w \<Rightarrow>
                    (case label_text py (label_prefix cfg) (axes cfg) 0 of
                          Inl e \<Rightarrow> (Inl e, w)
                        | Inr lx \<Rightarrow>
                    (let w = set_xlabel ax lx (label_fontsize cfg) w
                     in case label_text py (label_prefix cfg) (axes cfg) 1 of
                          Inl e \<Rightarrow> (Inl e, w)
                        | Inr ly \<Rightarrow>
                    (let w = set_ylabel ax ly (label_fontsize cfg) w
                     in (Inr (fig, ax), w)))))))
                 else
                   (let (ax, w) = Axes3D fig w in
                    case bindS (selected A (axes cfg) 0) (\<lambda>x.
                         bindS (selected A (axes cfg) 1) (\<lambda>y.
                         bindS (selected A (axes cfg) 2) (\<lambda>z. Inr [x, y, z]))) of
                      Inl e \<Rightarrow> (Inl e, w)
                    | Inr xs \<Rightarrow>
                    (let w = scatter ax xs s c w
                     in case set_xbound engine ax
                               (bound_arg (xbound cfg) (get_xbound engine ax w)) w of
                          Inl e \<Rightarrow> (Inl e, w)
                        | Inr w \<Rightarrow>
                    (case set_ybound engine ax
                               (bound_arg (ybound cfg) (get_ybound engine ax w)) w of
                          Inl e \<Rightarrow> (Inl e, w)
                        | Inr w \<Rightarrow>
                    (case set_zbound engine ax
                               (bound_arg (zbound cfg) (get_zbound engine ax w)) w of
                          Inl e \<Rightarrow> (Inl e, w)
                        | Inr w \<Rightarrow>
                    (case label_text py (label_prefix cfg) (axes cfg) 0 of
                          Inl e \<Rightarrow> (Inl e, w)
                        | Inr lx \<Rightarrow>
                    (let w = set_xlabel ax lx (label_fontsize cfg) w
                     in case label_text py (label_prefix cfg) (axes cfg) 1 of
                          Inl e \<Rightarrow> (Inl e, w)
                        | Inr ly \<Rightarrow>
                    (let w = set_ylabel ax ly (label_fontsize cfg) w
                     in case label_text py (label_prefix cfg) (axes cfg) 2 of
                          Inl e \<Rightarrow> (Inl e, w)
                        | Inr lz \<Rightarrow>
                    (let w = set_zlabel ax lz (label_fontsize cfg) w;
                         w = set_rotate_label ax XAxis False w;
                         w = set_rotate_label ax YAxis False w;
                         w = set_rotate_label ax ZAxis False w
                     in case bindS (getitem (euler cfg) 1) (\<lambda>elev.
                             bindS (getitem (euler cfg) 0) (\<lambda>azim. Inr (elev, azim))) of
                          Inl e \<Rightarrow> (Inl e, w)
                        | Inr (elev, azim) \<Rightarrow>
                    (let w = view_init ax elev azim w
                     in (Inr (fig, ax), w)))))))))))
         | None \<Rightarrow> (Inl TypeError, w))"

subsection \<open>Example inputs\<close>

text \<open>
  A runtime and a library for the examples, with rational numbers for the library's
  numbers. The library gives the X, Y and Z axes the automatic bounds \<open>(0, 1)\<close>, \<open>(0, 2)\<close>
  and \<open>(0, 3)\<close>, widens two equal limits \<open>v\<close> by a twentieth of \<open>|v|\<close> on either side (to
  \<open>(-1/20, 1/20)\<close> at zero), and refuses every bound that is not a pair of integers. The
  runtime gives the template \<^verbatim>\<open>{0}\<close>, which is outside the fragment, its Python meaning
  (the argument in decimal) and refuses every other template outside the fragment. No
  example below gives such a bound or such another template. Then two small point
  matrices (two and three columns) and some dictionaries: one that sets every option and
  carries a key that \<^verbatim>\<open>plot\<close> does not know, one with a title only, one that selects two
  columns, one with two equal X limits, one that sets the X bound and leaves the others
  alone, and one with the label template \<^verbatim>\<open>{0}\<close>. Last, the calls of \<^verbatim>\<open>plot\<close> on them,
  each right after the module is imported, with size \<open>1\<close> and the default colour.
\<close>

definition example_python :: python where
  "example_python =
     \<lparr>format_other = (\<lambda>t n. if t = ''{0}'' then Inr (str_int n) else Inl ValueError)\<rparr>"

definition example_engine :: "(rat, nat, string) pyplot" where
  "example_engine =
     \<lparr>auto_bound = (\<lambda>d cs. case d of XAxis \<Rightarrow> (0, 1) | YAxis \<Rightarrow> (0, 2) | ZAxis \<Rightarrow> (0, 3)),
      number = of_int,
      nonsingular = (\<lambda>v. if v = 0 then (- (1 / 20), 1 / 20)
                          else (of_int v - \<bar>of_int v\<bar> / 20, of_int v + \<bar>of_int v\<bar> / 20)),
      bound_of_other = (\<lambda>v old. Inl ValueError)\<rparr>"

definition front2 :: "rat ndarray" where
  "front2 = \<lparr>nrows = 2, columns = [[1, 2], [3, 4]]\<rparr>"

definition front3 :: "rat ndarray" where
  "front3 = \<lparr>nrows = 2, columns = [[1, 2], [3, 4], [5, 6]]\<rparr>"

definition styled :: kwargs where
  "styled =
     [''title'' \<mapsto> PyStr ''Front'', ''label_prefix'' \<mapsto> PyStr ''g{}'',
      ''label_fontsize'' \<mapsto> PyInt 12, ''axes'' \<mapsto> PyInts [2, 0, - 2],
      ''euler'' \<mapsto> PyInts [60, 20], ''xbound'' \<mapsto> PyInts [0, 5],
      ''ybound'' \<mapsto> PyInts [1, 7], ''zbound'' \<mapsto> PyInts [- 2, 2],
      ''marker'' \<mapsto> PyStr ''o'']"

definition titled :: kwargs where
  "titled = [''title'' \<mapsto> PyStr ''Front'']"

definition swapped :: kwargs where
  "swapped = [''axes'' \<mapsto> PyInts [1, - 2]]"


definition x_only :: kwargs where
  "x_only = [''xbound'' \<mapsto> PyInts [0, 5], ''zbound'' \<mapsto> PyNone]"

definition positional :: kwargs where
  "positional = [''label_prefix'' \<mapsto> PyStr ''{0}'']"

definition run_default2 :: "(error + fig_handle \<times> ax_handle) \<times> (rat, nat, string) world" where
  "run_default2 = plot example_python front2 (Some example_engine) 1 ''tab:blue'' Map.empty world_init"

definition run_default3 :: "(error + fig_handle \<times> ax_handle) \<times> (rat, nat, string) world" where
  "run_default3 = plot example_python front3 (Some example_engine) 1 ''tab:blue'' Map.empty world_init"

definition run_swapped :: "(error + fig_handle \<times> ax_handle) \<times> (rat, nat, string) world" where
  "run_swapped = plot example_python front2 (Some example_engine) 1 ''tab:blue'' swapped world_init"

definition run_styled :: "(error + fig_handle \<times> ax_handle) \<times> (rat, nat, string) world" where
  "run_styled = plot example_python front3 (Some example_engine) 1 ''tab:blue'' styled world_init"

definition run_titled :: "(error + fig_handle \<times> ax_handle) \<times> (rat, nat, string) world" where
  "run_titled = plot example_python front2 (Some example_engine) 1 ''tab:blue'' titled world_init"


definition run_x_only :: "(error + fig_handle \<times> ax_handle) \<times> (rat, nat, string) world" where
  "run_x_only = plot example_python front3 (Some example_engine) 1 ''tab:blue'' x_only world_init"

definition run_positional :: "(error + fig_handle \<times> ax_handle) \<times> (rat, nat, string) world" where
  "run_positional =
     plot example_python front3 (Some example_engine) 1 ''tab:blue'' positional world_init"

section \<open>Running \<^verbatim>\<open>plot\<close> on a fresh figure\<close>

text \<open>
  The figure that \<^verbatim>\<open>plot\<close> creates is the last one of the state and has a single axes
  object, so every call on it rewrites the state in place.
\<close>

lemma upd_figure_fresh:
  "upd_figure (length fs) f (w\<lparr>figures := fs @ [g]\<rparr>) = w\<lparr>figures := fs @ [f g]\<rparr>"
  by (simp add: upd_figure_def)

lemma upd_axes_fresh:
  "upd_axes (length fs, 0) f (w\<lparr>figures := fs @ [\<lparr>fig_suptitle = t, fig_axes = [a]\<rparr>]\<rparr>) =
     w\<lparr>figures := fs @ [\<lparr>fig_suptitle = t, fig_axes = [f a]\<rparr>]\<rparr>"
  by (simp add: upd_axes_def upd_figure_fresh)

lemma the_axes_fresh:
  "the_axes (w\<lparr>figures := fs @ [\<lparr>fig_suptitle = t, fig_axes = [a]\<rparr>]\<rparr>) (length fs, 0) = a"
  by (simp add: the_axes_def)

lemma suptitle_fresh:
  "suptitle (length fs) v (w\<lparr>figures := fs @ [\<lparr>fig_suptitle = t, fig_axes = as\<rparr>]\<rparr>) =
     w\<lparr>figures := fs @ [\<lparr>fig_suptitle = Some v, fig_axes = as\<rparr>]\<rparr>"
  by (simp add: suptitle_def upd_figure_fresh)

lemma gca_fresh:
  "gca (length fs) (w\<lparr>figures := fs @ [\<lparr>fig_suptitle = t, fig_axes = []\<rparr>]\<rparr>) =
     ((length fs, 0),
      w\<lparr>figures := fs @ [\<lparr>fig_suptitle = t, fig_axes = [new_axes Rectilinear]\<rparr>]\<rparr>)"
  by (simp add: gca_def upd_figure_fresh)

lemma Axes3D_fresh:
  "Axes3D (length fs) (w\<lparr>figures := fs @ [\<lparr>fig_suptitle = t, fig_axes = []\<rparr>]\<rparr>) =
     ((length fs, 0),
      w\<lparr>figures := fs @ [\<lparr>fig_suptitle = t, fig_axes = [new_axes Projection3D]\<rparr>]\<rparr>)"
  by (simp add: Axes3D_def upd_figure_fresh)

lemmas fresh_simps = figure_def suptitle_fresh gca_fresh Axes3D_fresh upd_axes_fresh the_axes_fresh
  scatter_def set_xbound_def set_ybound_def set_zbound_def
  get_xbound_def get_ybound_def get_zbound_def
  set_xlabel_def set_ylabel_def set_zlabel_def set_rotate_label_def view_init_def new_axes_def

lemma plot_2d_returns:
  assumes "shape1 A < 3"
    and "selected A (axes (resolve kwargs)) 0 = Inr x"
    and "selected A (axes (resolve kwargs)) 1 = Inr y"
    and "new_bound engine (auto_bound engine XAxis [\<lparr>coords = [x, y], sizes = s, colors = c\<rparr>])
         (bound_arg (xbound (resolve kwargs)) (auto_bound engine XAxis [\<lparr>coords = [x, y], sizes = s, colors = c\<rparr>])) = Inr xb"
    and "new_bound engine (auto_bound engine YAxis [\<lparr>coords = [x, y], sizes = s, colors = c\<rparr>])
         (bound_arg (ybound (resolve kwargs)) (auto_bound engine YAxis [\<lparr>coords = [x, y], sizes = s, colors = c\<rparr>])) = Inr yb"
    and "label_text py (label_prefix (resolve kwargs)) (axes (resolve kwargs)) 0 = Inr lx"
    and "label_text py (label_prefix (resolve kwargs)) (axes (resolve kwargs)) 1 = Inr ly"
  shows "plot py A (Some engine) s c kwargs w =
     (Inr (length (figures w), (length (figures w), 0)),
      w\<lparr>figures := figures w @
       [\<lparr>fig_suptitle =
           (if title (resolve kwargs) = PyNone then None else Some (title (resolve kwargs))),
         fig_axes =
           [\<lparr>projection = Rectilinear,
             collections = [\<lparr>coords = [x, y], sizes = s, colors = c\<rparr>],
             ax_xbound = Some xb, ax_ybound = Some yb, ax_zbound = None,
             ax_xlabel = Some (lx, label_fontsize (resolve kwargs)),
             ax_ylabel = Some (ly, label_fontsize (resolve kwargs)),
             ax_zlabel = None,
             ax_x_rotate_label = None, ax_y_rotate_label = None, ax_z_rotate_label = None,
             ax_view = None\<rparr>]\<rparr>]\<rparr>)"
  using assms
  by (simp add: plot_def Let_def fresh_simps bindS_def)

lemma plot_3d_returns:
  assumes "\<not> shape1 A < 3"
    and "selected A (axes (resolve kwargs)) 0 = Inr x"
    and "selected A (axes (resolve kwargs)) 1 = Inr y"
    and "selected A (axes (resolve kwargs)) 2 = Inr z"
    and "new_bound engine (auto_bound engine XAxis [\<lparr>coords = [x, y, z], sizes = s, colors = c\<rparr>])
         (bound_arg (xbound (resolve kwargs)) (auto_bound engine XAxis [\<lparr>coords = [x, y, z], sizes = s, colors = c\<rparr>])) = Inr xb"
    and "new_bound engine (auto_bound engine YAxis [\<lparr>coords = [x, y, z], sizes = s, colors = c\<rparr>])
         (bound_arg (ybound (resolve kwargs)) (auto_bound engine YAxis [\<lparr>coords = [x, y, z], sizes = s, colors = c\<rparr>])) = Inr yb"
    and "new_bound engine (auto_bound engine ZAxis [\<lparr>coords = [x, y, z], sizes = s, colors = c\<rparr>])
         (bound_arg (zbound (resolve kwargs)) (auto_bound engine ZAxis [\<lparr>coords = [x, y, z], sizes = s, colors = c\<rparr>])) = Inr zb"
    and "label_text py (label_prefix (resolve kwargs)) (axes (resolve kwargs)) 0 = Inr lx"
    and "label_text py (label_prefix (resolve kwargs)) (axes (resolve kwargs)) 1 = Inr ly"
    and "label_text py (label_prefix (resolve kwargs)) (axes (resolve kwargs)) 2 = Inr lz"
    and "getitem (euler (resolve kwargs)) 1 = Inr elev"
    and "getitem (euler (resolve kwargs)) 0 = Inr azim"
  shows "plot py A (Some engine) s c kwargs w =
     (Inr (length (figures w), (length (figures w), 0)),
      w\<lparr>figures := figures w @
       [\<lparr>fig_suptitle =
           (if title (resolve kwargs) = PyNone then None else Some (title (resolve kwargs))),
         fig_axes =
           [\<lparr>projection = Projection3D,
             collections = [\<lparr>coords = [x, y, z], sizes = s, colors = c\<rparr>],
             ax_xbound = Some xb, ax_ybound = Some yb, ax_zbound = Some zb,
             ax_xlabel = Some (lx, label_fontsize (resolve kwargs)),
             ax_ylabel = Some (ly, label_fontsize (resolve kwargs)),
             ax_zlabel = Some (lz, label_fontsize (resolve kwargs)),
             ax_x_rotate_label = Some False, ax_y_rotate_label = Some False,
             ax_z_rotate_label = Some False,
             ax_view = Some (elev, azim)\<rparr>]\<rparr>]\<rparr>)"
  using assms
  by (simp add: plot_def Let_def fresh_simps bindS_def)

lemma plot_2d_succeeds:
  assumes "shape1 A < 3"
    and "plot py A (Some engine) s c kwargs w = (Inr (fig, ax), w')"
  obtains x y xb yb lx ly where
      "selected A (axes (resolve kwargs)) 0 = Inr x"
      "selected A (axes (resolve kwargs)) 1 = Inr y"
      "new_bound engine (auto_bound engine XAxis [\<lparr>coords = [x, y], sizes = s, colors = c\<rparr>])
         (bound_arg (xbound (resolve kwargs)) (auto_bound engine XAxis [\<lparr>coords = [x, y], sizes = s, colors = c\<rparr>])) = Inr xb"
      "new_bound engine (auto_bound engine YAxis [\<lparr>coords = [x, y], sizes = s, colors = c\<rparr>])
         (bound_arg (ybound (resolve kwargs)) (auto_bound engine YAxis [\<lparr>coords = [x, y], sizes = s, colors = c\<rparr>])) = Inr yb"
      "label_text py (label_prefix (resolve kwargs)) (axes (resolve kwargs)) 0 = Inr lx"
      "label_text py (label_prefix (resolve kwargs)) (axes (resolve kwargs)) 1 = Inr ly"
proof -
  obtain x where f_x: "selected A (axes (resolve kwargs)) 0 = Inr x"
    using assms 
    by (cases "selected A (axes (resolve kwargs)) 0")
       (simp_all add: plot_def Let_def bindS_def split_def fresh_simps split: if_splits)
  obtain y where f_y: "selected A (axes (resolve kwargs)) 1 = Inr y"
    using assms f_x
    by (cases "selected A (axes (resolve kwargs)) 1")
       (simp_all add: plot_def Let_def bindS_def split_def fresh_simps split: if_splits)
  obtain xb where f_xb: "new_bound engine (auto_bound engine XAxis [\<lparr>coords = [x, y], sizes = s, colors = c\<rparr>])
         (bound_arg (xbound (resolve kwargs)) (auto_bound engine XAxis [\<lparr>coords = [x, y], sizes = s, colors = c\<rparr>])) = Inr xb"
    using assms f_x f_y
    by (cases "new_bound engine (auto_bound engine XAxis [\<lparr>coords = [x, y], sizes = s, colors = c\<rparr>])
         (bound_arg (xbound (resolve kwargs)) (auto_bound engine XAxis [\<lparr>coords = [x, y], sizes = s, colors = c\<rparr>]))")
       (simp_all add: plot_def Let_def bindS_def split_def fresh_simps split: if_splits)
  obtain yb where f_yb: "new_bound engine (auto_bound engine YAxis [\<lparr>coords = [x, y], sizes = s, colors = c\<rparr>])
         (bound_arg (ybound (resolve kwargs)) (auto_bound engine YAxis [\<lparr>coords = [x, y], sizes = s, colors = c\<rparr>])) = Inr yb"
    using assms f_x f_y f_xb
    by (cases "new_bound engine (auto_bound engine YAxis [\<lparr>coords = [x, y], sizes = s, colors = c\<rparr>])
         (bound_arg (ybound (resolve kwargs)) (auto_bound engine YAxis [\<lparr>coords = [x, y], sizes = s, colors = c\<rparr>]))")
       (simp_all add: plot_def Let_def bindS_def split_def fresh_simps split: if_splits)
  obtain lx where f_lx: "label_text py (label_prefix (resolve kwargs)) (axes (resolve kwargs)) 0 = Inr lx"
    using assms f_x f_y f_xb f_yb
    by (cases "label_text py (label_prefix (resolve kwargs)) (axes (resolve kwargs)) 0")
       (simp_all add: plot_def Let_def bindS_def split_def fresh_simps split: if_splits)
  obtain ly where f_ly: "label_text py (label_prefix (resolve kwargs)) (axes (resolve kwargs)) 1 = Inr ly"
    using assms f_x f_y f_xb f_yb f_lx
    by (cases "label_text py (label_prefix (resolve kwargs)) (axes (resolve kwargs)) 1")
       (simp_all add: plot_def Let_def bindS_def split_def fresh_simps split: if_splits)
  from f_x f_y f_xb f_yb f_lx f_ly that show thesis by blast
qed

lemma plot_3d_succeeds:
  assumes "\<not> shape1 A < 3"
    and "plot py A (Some engine) s c kwargs w = (Inr (fig, ax), w')"
  obtains x y z xb yb zb lx ly lz elev azim where
      "selected A (axes (resolve kwargs)) 0 = Inr x"
      "selected A (axes (resolve kwargs)) 1 = Inr y"
      "selected A (axes (resolve kwargs)) 2 = Inr z"
      "new_bound engine (auto_bound engine XAxis [\<lparr>coords = [x, y, z], sizes = s, colors = c\<rparr>])
         (bound_arg (xbound (resolve kwargs)) (auto_bound engine XAxis [\<lparr>coords = [x, y, z], sizes = s, colors = c\<rparr>])) = Inr xb"
      "new_bound engine (auto_bound engine YAxis [\<lparr>coords = [x, y, z], sizes = s, colors = c\<rparr>])
         (bound_arg (ybound (resolve kwargs)) (auto_bound engine YAxis [\<lparr>coords = [x, y, z], sizes = s, colors = c\<rparr>])) = Inr yb"
      "new_bound engine (auto_bound engine ZAxis [\<lparr>coords = [x, y, z], sizes = s, colors = c\<rparr>])
         (bound_arg (zbound (resolve kwargs)) (auto_bound engine ZAxis [\<lparr>coords = [x, y, z], sizes = s, colors = c\<rparr>])) = Inr zb"
      "label_text py (label_prefix (resolve kwargs)) (axes (resolve kwargs)) 0 = Inr lx"
      "label_text py (label_prefix (resolve kwargs)) (axes (resolve kwargs)) 1 = Inr ly"
      "label_text py (label_prefix (resolve kwargs)) (axes (resolve kwargs)) 2 = Inr lz"
      "getitem (euler (resolve kwargs)) 1 = Inr elev"
      "getitem (euler (resolve kwargs)) 0 = Inr azim"
proof -
  obtain x where f_x: "selected A (axes (resolve kwargs)) 0 = Inr x"
    using assms 
    by (cases "selected A (axes (resolve kwargs)) 0")
       (simp_all add: plot_def Let_def bindS_def split_def fresh_simps split: if_splits)
  obtain y where f_y: "selected A (axes (resolve kwargs)) 1 = Inr y"
    using assms f_x
    by (cases "selected A (axes (resolve kwargs)) 1")
       (simp_all add: plot_def Let_def bindS_def split_def fresh_simps split: if_splits)
  obtain z where f_z: "selected A (axes (resolve kwargs)) 2 = Inr z"
    using assms f_x f_y
    by (cases "selected A (axes (resolve kwargs)) 2")
       (simp_all add: plot_def Let_def bindS_def split_def fresh_simps split: if_splits)
  obtain xb where f_xb: "new_bound engine (auto_bound engine XAxis [\<lparr>coords = [x, y, z], sizes = s, colors = c\<rparr>])
         (bound_arg (xbound (resolve kwargs)) (auto_bound engine XAxis [\<lparr>coords = [x, y, z], sizes = s, colors = c\<rparr>])) = Inr xb"
    using assms f_x f_y f_z
    by (cases "new_bound engine (auto_bound engine XAxis [\<lparr>coords = [x, y, z], sizes = s, colors = c\<rparr>])
         (bound_arg (xbound (resolve kwargs)) (auto_bound engine XAxis [\<lparr>coords = [x, y, z], sizes = s, colors = c\<rparr>]))")
       (simp_all add: plot_def Let_def bindS_def split_def fresh_simps split: if_splits)
  obtain yb where f_yb: "new_bound engine (auto_bound engine YAxis [\<lparr>coords = [x, y, z], sizes = s, colors = c\<rparr>])
         (bound_arg (ybound (resolve kwargs)) (auto_bound engine YAxis [\<lparr>coords = [x, y, z], sizes = s, colors = c\<rparr>])) = Inr yb"
    using assms f_x f_y f_z f_xb
    by (cases "new_bound engine (auto_bound engine YAxis [\<lparr>coords = [x, y, z], sizes = s, colors = c\<rparr>])
         (bound_arg (ybound (resolve kwargs)) (auto_bound engine YAxis [\<lparr>coords = [x, y, z], sizes = s, colors = c\<rparr>]))")
       (simp_all add: plot_def Let_def bindS_def split_def fresh_simps split: if_splits)
  obtain zb where f_zb: "new_bound engine (auto_bound engine ZAxis [\<lparr>coords = [x, y, z], sizes = s, colors = c\<rparr>])
         (bound_arg (zbound (resolve kwargs)) (auto_bound engine ZAxis [\<lparr>coords = [x, y, z], sizes = s, colors = c\<rparr>])) = Inr zb"
    using assms f_x f_y f_z f_xb f_yb
    by (cases "new_bound engine (auto_bound engine ZAxis [\<lparr>coords = [x, y, z], sizes = s, colors = c\<rparr>])
         (bound_arg (zbound (resolve kwargs)) (auto_bound engine ZAxis [\<lparr>coords = [x, y, z], sizes = s, colors = c\<rparr>]))")
       (simp_all add: plot_def Let_def bindS_def split_def fresh_simps split: if_splits)
  obtain lx where f_lx: "label_text py (label_prefix (resolve kwargs)) (axes (resolve kwargs)) 0 = Inr lx"
    using assms f_x f_y f_z f_xb f_yb f_zb
    by (cases "label_text py (label_prefix (resolve kwargs)) (axes (resolve kwargs)) 0")
       (simp_all add: plot_def Let_def bindS_def split_def fresh_simps split: if_splits)
  obtain ly where f_ly: "label_text py (label_prefix (resolve kwargs)) (axes (resolve kwargs)) 1 = Inr ly"
    using assms f_x f_y f_z f_xb f_yb f_zb f_lx
    by (cases "label_text py (label_prefix (resolve kwargs)) (axes (resolve kwargs)) 1")
       (simp_all add: plot_def Let_def bindS_def split_def fresh_simps split: if_splits)
  obtain lz where f_lz: "label_text py (label_prefix (resolve kwargs)) (axes (resolve kwargs)) 2 = Inr lz"
    using assms f_x f_y f_z f_xb f_yb f_zb f_lx f_ly
    by (cases "label_text py (label_prefix (resolve kwargs)) (axes (resolve kwargs)) 2")
       (simp_all add: plot_def Let_def bindS_def split_def fresh_simps split: if_splits)
  obtain elev where f_elev: "getitem (euler (resolve kwargs)) 1 = Inr elev"
    using assms f_x f_y f_z f_xb f_yb f_zb f_lx f_ly f_lz
    by (cases "getitem (euler (resolve kwargs)) 1")
       (simp_all add: plot_def Let_def bindS_def split_def fresh_simps split: if_splits)
  obtain azim where f_azim: "getitem (euler (resolve kwargs)) 0 = Inr azim"
    using assms f_x f_y f_z f_xb f_yb f_zb f_lx f_ly f_lz f_elev
    by (cases "getitem (euler (resolve kwargs)) 0")
       (simp_all add: plot_def Let_def bindS_def split_def fresh_simps split: if_splits)
  from f_x f_y f_z f_xb f_yb f_zb f_lx f_ly f_lz f_elev f_azim that show thesis by blast
qed

subsection \<open>What a returning call has evaluated\<close>

lemma resolve_options:
  "label_prefix (resolve kwargs) =
     (case kwargs ''label_prefix'' of None \<Rightarrow> PyStr ''$f_{:d}$'' | Some v \<Rightarrow> v)"
  "label_fontsize (resolve kwargs) =
     (case kwargs ''label_fontsize'' of None \<Rightarrow> PyStr ''large'' | Some v \<Rightarrow> v)"
  "axes (resolve kwargs) = (case kwargs ''axes'' of None \<Rightarrow> PyInts [0, 1, 2] | Some v \<Rightarrow> v)"
  "euler (resolve kwargs) = (case kwargs ''euler'' of None \<Rightarrow> PyInts [- 60, 30] | Some v \<Rightarrow> v)"
  "xbound (resolve kwargs) = (case kwargs ''xbound'' of None \<Rightarrow> PyNone | Some v \<Rightarrow> v)"
  "ybound (resolve kwargs) = (case kwargs ''ybound'' of None \<Rightarrow> PyNone | Some v \<Rightarrow> v)"
  "zbound (resolve kwargs) = (case kwargs ''zbound'' of None \<Rightarrow> PyNone | Some v \<Rightarrow> v)"
  "title (resolve kwargs) = (case kwargs ''title'' of None \<Rightarrow> PyNone | Some v \<Rightarrow> v)"
  by (simp_all add: resolve_def kw_get_def)

lemma getitem_int:
  assumes "getitem v k = Inr (ItemInt j)"
  shows "\<exists>xs. v = PyInts xs \<and> k < length xs \<and> j = xs ! k"
  using assms by (cases v) (auto simp: getitem_def split: if_splits)

lemma column_Inr:
  assumes "column A i = Inr xs"
  shows "\<exists>j. i = ItemInt j \<and> - int (shape1 A) \<le> j \<and> j < int (shape1 A) \<and>
           xs = columns A ! nat (j mod int (shape1 A))"
proof (cases i)
  case (ItemInt j)
  with assms have r: "- int (shape1 A) \<le> j" "j < int (shape1 A)"
    and xs: "xs = columns A ! nat (if j < 0 then j + int (shape1 A) else j)"
    by (auto simp: column_def Let_def split: if_splits)
  have "j mod int (shape1 A) = (if j < 0 then j + int (shape1 A) else j)"
  proof (cases "j < 0")
    case True
    with r have "0 \<le> j + int (shape1 A)" "j + int (shape1 A) < int (shape1 A)" by simp_all
    then have "(j + int (shape1 A)) mod int (shape1 A) = j + int (shape1 A)"
      by (rule mod_pos_pos_trivial)
    with True show ?thesis by simp
  next
    case False
    with r show ?thesis by simp
  qed
  with ItemInt r xs show ?thesis by simp
next
  case (ItemStr t)
  with assms show ?thesis by (simp add: column_def)
qed

lemma selected_Inr:
  assumes "selected A v k = Inr xs"
  shows "\<exists>j. getitem v k = Inr (ItemInt j) \<and> - int (shape1 A) \<le> j \<and> j < int (shape1 A) \<and>
           xs = columns A ! nat (j mod int (shape1 A))"
proof -
  from assms obtain i where i: "getitem v k = Inr i" "column A i = Inr xs"
    by (auto simp: selected_def bindS_def split: sum.splits)
  from column_Inr [OF i(2)] i(1) show ?thesis by auto
qed

lemma option_entry:
  assumes "getitem (case kw of None \<Rightarrow> PyInts ds | Some v \<Rightarrow> v) k = Inr (ItemInt j)"
  shows "(kw = None \<longrightarrow> k < length ds \<and> j = ds ! k) \<and>
         (\<forall>v. kw = Some v \<longrightarrow> (\<exists>xs. v = PyInts xs \<and> k < length xs \<and> j = xs ! k))"
  using getitem_int [OF assms] by (cases kw) auto

lemma label_text_Inr:
  assumes "label_text py lp sel k = Inr l"
  obtains template i where "lp = PyStr template" "getitem sel k = Inr (ItemInt i)"
    "format py template (i + 1) = Inr l"
  using assms
  by (auto simp: label_text_def bindS_def add_one_def split: pyval.splits sum.splits item.splits)

lemma format_default: "format py ''$f_{:d}$'' n = Inr (''$f_'' @ str_int n @ ''$'')"
  by (simp add: format_def emit_def bindS_def)

lemma resolve_empty:
  "resolve Map.empty =
     \<lparr>label_prefix = PyStr ''$f_{:d}$'', label_fontsize = PyStr ''large'',
      axes = PyInts [0, 1, 2], euler = PyInts [- 60, 30],
      xbound = PyNone, ybound = PyNone, zbound = PyNone, title = PyNone\<rparr>"
  by (simp add: resolve_def kw_get_def)

lemma digits_nat_small: "n < 10 \<Longrightarrow> digits_nat n = [digit_char n]"
  by (simp add: digits_nat.simps)

lemma default_columns:
  "0 < shape1 A \<Longrightarrow> selected A (axes (resolve Map.empty)) 0 = Inr (columns A ! 0)"
  "1 < shape1 A \<Longrightarrow> selected A (axes (resolve Map.empty)) 1 = Inr (columns A ! 1)"
  "2 < shape1 A \<Longrightarrow> selected A (axes (resolve Map.empty)) 2 = Inr (columns A ! 2)"
  by (simp_all add: resolve_empty selected_def getitem_def column_def bindS_def)

lemma default_labels:
  "label_text py (label_prefix (resolve Map.empty)) (axes (resolve Map.empty)) 0 = Inr ''$f_1$''"
  "label_text py (label_prefix (resolve Map.empty)) (axes (resolve Map.empty)) 1 = Inr ''$f_2$''"
  "label_text py (label_prefix (resolve Map.empty)) (axes (resolve Map.empty)) 2 = Inr ''$f_3$''"
  by (simp_all add: resolve_empty label_text_def getitem_def add_one_def bindS_def format_default
      str_int_def digits_nat_small digit_char_def)

lemma default_euler:
  "getitem (euler (resolve Map.empty)) 1 = Inr (ItemInt 30)"
  "getitem (euler (resolve Map.empty)) 0 = Inr (ItemInt (- 60))"
  by (simp_all add: resolve_empty getitem_def)

lemma new_bound_unset: "new_bound engine old (bound_arg PyNone b) = Inr b"
  by (simp add: new_bound_def bound_arg_def)

lemma default_bounds:
  "new_bound engine old (bound_arg (xbound (resolve Map.empty)) b) = Inr b"
  "new_bound engine old (bound_arg (ybound (resolve Map.empty)) b) = Inr b"
  "new_bound engine old (bound_arg (zbound (resolve Map.empty)) b) = Inr b"
  by (simp_all add: resolve_empty new_bound_unset)

lemma new_bound_ordered:
  "lo < hi \<Longrightarrow>
   new_bound engine old (bound_arg (PyInts [lo, hi]) b) = Inr (number engine lo, number engine hi)"
  by (simp add: new_bound_def bound_arg_def)


subsection \<open>The example calls\<close>

lemma example_shapes: "shape1 front2 = 2" "shape1 front3 = 3"
  by (simp_all add: shape1_def front2_def front3_def)

lemma resolve_swapped: "resolve swapped = (resolve Map.empty)\<lparr>axes := PyInts [1, - 2]\<rparr>"
  by (simp add: resolve_def kw_get_def swapped_def)

lemma resolve_titled: "resolve titled = (resolve Map.empty)\<lparr>title := PyStr ''Front''\<rparr>"
  by (simp add: resolve_def kw_get_def titled_def)


lemma resolve_x_only: "resolve x_only = (resolve Map.empty)\<lparr>xbound := PyInts [0, 5]\<rparr>"
  by (simp add: resolve_def kw_get_def x_only_def)

lemma resolve_styled:
  "resolve styled =
     \<lparr>label_prefix = PyStr ''g{}'', label_fontsize = PyInt 12,
      axes = PyInts [2, 0, - 2], euler = PyInts [60, 20],
      xbound = PyInts [0, 5], ybound = PyInts [1, 7], zbound = PyInts [- 2, 2],
      title = PyStr ''Front''\<rparr>"
  by (simp add: resolve_def kw_get_def styled_def)

lemma run_default2_returns: "run_default2 = (Inr (0, (0, 0)), snd run_default2)"
proof -
  have m: "shape1 front2 < 3" "0 < shape1 front2" "1 < shape1 front2"
    by (simp_all add: example_shapes)
  note r = plot_2d_returns [OF m(1) default_columns(1) [OF m(2)] default_columns(2) [OF m(3)]
      default_bounds(1) default_bounds(2) default_labels(1) default_labels(2),
      where s = 1 and c = "''tab:blue''" and w = world_init and py = example_python
        and engine = example_engine]
  show ?thesis unfolding run_default2_def r by (simp add: world_init_def)
qed

lemma run_default3_returns: "run_default3 = (Inr (0, (0, 0)), snd run_default3)"
proof -
  have m: "\<not> shape1 front3 < 3" "0 < shape1 front3" "1 < shape1 front3" "2 < shape1 front3"
    by (simp_all add: example_shapes)
  note r = plot_3d_returns [OF m(1) default_columns(1) [OF m(2)] default_columns(2) [OF m(3)]
      default_columns(3) [OF m(4)] default_bounds default_labels default_euler,
      where s = 1 and c = "''tab:blue''" and w = world_init and py = example_python
        and engine = example_engine]
  show ?thesis unfolding run_default3_def r by (simp add: world_init_def)
qed

lemma run_titled_returns: "run_titled = (Inr (0, (0, 0)), snd run_titled)"
proof -
  have m: "shape1 front2 < 3" "0 < shape1 front2" "1 < shape1 front2"
    by (simp_all add: example_shapes)
  have e: "selected front2 (axes (resolve titled)) 0 = Inr (columns front2 ! 0)"
    "selected front2 (axes (resolve titled)) 1 = Inr (columns front2 ! 1)"
    "\<And>old b. new_bound example_engine old (bound_arg (xbound (resolve titled)) b) = Inr b"
    "\<And>old b. new_bound example_engine old (bound_arg (ybound (resolve titled)) b) = Inr b"
    "label_text example_python (label_prefix (resolve titled)) (axes (resolve titled)) 0 = Inr ''$f_1$''"
    "label_text example_python (label_prefix (resolve titled)) (axes (resolve titled)) 1 = Inr ''$f_2$''"
    using default_columns(1) [OF m(2)] default_columns(2) [OF m(3)]
      default_labels(1,2) [of example_python] default_bounds(1,2) [of example_engine]
    by (simp_all add: resolve_titled)
  note r = plot_2d_returns [OF m(1) e,
      where s = 1 and c = "''tab:blue''" and w = world_init]
  show ?thesis unfolding run_titled_def r by (simp add: world_init_def)
qed

lemma swapped_evaluates:
  "selected front2 (axes (resolve swapped)) 0 = Inr [3, 4]"
  "selected front2 (axes (resolve swapped)) 1 = Inr [1, 2]"
  "new_bound example_engine old (bound_arg (xbound (resolve swapped)) b) = Inr b"
  "new_bound example_engine old (bound_arg (ybound (resolve swapped)) b) = Inr b"
  "label_text example_python (label_prefix (resolve swapped)) (axes (resolve swapped)) 0 = Inr ''$f_2$''"
  "label_text example_python (label_prefix (resolve swapped)) (axes (resolve swapped)) 1 = Inr ''$f_-1$''"
  by (simp_all add: resolve_swapped resolve_empty selected_def getitem_def column_def bindS_def
      shape1_def front2_def new_bound_unset label_text_def add_one_def format_default
      str_int_def digits_nat_small digit_char_def)

lemma run_swapped_returns: "run_swapped = (Inr (0, (0, 0)), snd run_swapped)"
proof -
  have m: "shape1 front2 < 3" by (simp add: example_shapes)
  note r = plot_2d_returns [OF m swapped_evaluates,
      where s = 1 and c = "''tab:blue''" and w = world_init]
  show ?thesis unfolding run_swapped_def r by (simp add: world_init_def)
qed



lemma styled_evaluates:
  "selected front3 (axes (resolve styled)) 0 = Inr [5, 6]"
  "selected front3 (axes (resolve styled)) 1 = Inr [1, 2]"
  "selected front3 (axes (resolve styled)) 2 = Inr [3, 4]"
  "new_bound example_engine old (bound_arg (xbound (resolve styled)) b) = Inr (0, 5)"
  "new_bound example_engine old (bound_arg (ybound (resolve styled)) b) = Inr (1, 7)"
  "new_bound example_engine old (bound_arg (zbound (resolve styled)) b) = Inr (- 2, 2)"
  "label_text example_python (label_prefix (resolve styled)) (axes (resolve styled)) 0 = Inr ''g3''"
  "label_text example_python (label_prefix (resolve styled)) (axes (resolve styled)) 1 = Inr ''g1''"
  "label_text example_python (label_prefix (resolve styled)) (axes (resolve styled)) 2 = Inr ''g-1''"
  "getitem (euler (resolve styled)) 1 = Inr (ItemInt 20)"
  "getitem (euler (resolve styled)) 0 = Inr (ItemInt 60)"
  by (simp_all add: resolve_styled selected_def getitem_def column_def bindS_def
      shape1_def front3_def new_bound_ordered example_engine_def
      label_text_def add_one_def format_def emit_def str_int_def digits_nat_small digit_char_def)

lemma run_styled_returns: "run_styled = (Inr (0, (0, 0)), snd run_styled)"
proof -
  have m: "\<not> shape1 front3 < 3" by (simp add: example_shapes)
  note r = plot_3d_returns [OF m styled_evaluates,
      where s = 1 and c = "''tab:blue''" and w = world_init]
  show ?thesis unfolding run_styled_def r by (simp add: world_init_def)
qed

lemma x_only_evaluates:
  "selected front3 (axes (resolve x_only)) 0 = Inr [1, 2]"
  "selected front3 (axes (resolve x_only)) 1 = Inr [3, 4]"
  "selected front3 (axes (resolve x_only)) 2 = Inr [5, 6]"
  "new_bound example_engine old (bound_arg (xbound (resolve x_only)) b) = Inr (0, 5)"
  "new_bound example_engine old (bound_arg (ybound (resolve x_only)) b) = Inr b"
  "new_bound example_engine old (bound_arg (zbound (resolve x_only)) b) = Inr b"
  "label_text example_python (label_prefix (resolve x_only)) (axes (resolve x_only)) 0 = Inr ''$f_1$''"
  "label_text example_python (label_prefix (resolve x_only)) (axes (resolve x_only)) 1 = Inr ''$f_2$''"
  "label_text example_python (label_prefix (resolve x_only)) (axes (resolve x_only)) 2 = Inr ''$f_3$''"
  "getitem (euler (resolve x_only)) 1 = Inr (ItemInt 30)"
  "getitem (euler (resolve x_only)) 0 = Inr (ItemInt (- 60))"
  by (simp_all add: resolve_x_only resolve_empty selected_def getitem_def column_def bindS_def
      shape1_def front3_def new_bound_ordered new_bound_unset example_engine_def
      label_text_def add_one_def format_default str_int_def digits_nat_small digit_char_def)

lemma run_x_only_returns: "run_x_only = (Inr (0, (0, 0)), snd run_x_only)"
proof -
  have m: "\<not> shape1 front3 < 3" by (simp add: example_shapes)
  note r = plot_3d_returns [OF m x_only_evaluates,
      where s = 1 and c = "''tab:blue''" and w = world_init]
  show ?thesis unfolding run_x_only_def r by (simp add: world_init_def)
qed

lemma resolve_positional:
  "resolve positional = (resolve Map.empty)\<lparr>label_prefix := PyStr ''{0}''\<rparr>"
  by (simp add: resolve_def kw_get_def positional_def)

lemma positional_evaluates:
  "selected front3 (axes (resolve positional)) 0 = Inr [1, 2]"
  "selected front3 (axes (resolve positional)) 1 = Inr [3, 4]"
  "selected front3 (axes (resolve positional)) 2 = Inr [5, 6]"
  "new_bound example_engine old (bound_arg (xbound (resolve positional)) b) = Inr b"
  "new_bound example_engine old (bound_arg (ybound (resolve positional)) b) = Inr b"
  "new_bound example_engine old (bound_arg (zbound (resolve positional)) b) = Inr b"
  "label_text example_python (label_prefix (resolve positional)) (axes (resolve positional)) 0 =
     Inr ''1''"
  "label_text example_python (label_prefix (resolve positional)) (axes (resolve positional)) 1 =
     Inr ''2''"
  "label_text example_python (label_prefix (resolve positional)) (axes (resolve positional)) 2 =
     Inr ''3''"
  "getitem (euler (resolve positional)) 1 = Inr (ItemInt 30)"
  "getitem (euler (resolve positional)) 0 = Inr (ItemInt (- 60))"
  by (simp_all add: resolve_positional resolve_empty selected_def getitem_def column_def bindS_def
      shape1_def front3_def new_bound_unset example_python_def
      label_text_def add_one_def format_def str_int_def digits_nat_small digit_char_def)

lemma run_positional_returns: "run_positional = (Inr (0, (0, 0)), snd run_positional)"
proof -
  have m: "\<not> shape1 front3 < 3" by (simp add: example_shapes)
  note r = plot_3d_returns [OF m positional_evaluates,
      where s = 1 and c = "''tab:blue''" and w = world_init]
  show ?thesis unfolding run_positional_def r by (simp add: world_init_def)
qed


lemma unset_bound_result:
  assumes "new_bound engine old (bound_arg v b) = Inr r" and "v = PyNone"
  shows "r = b"
  using assms by (simp add: new_bound_unset)

section \<open>Properties of \<^verbatim>\<open>plot\<close>\<close>

text \<open>
  C1. Whatever the points array and the keyword options are, a call with \<^verbatim>\<open>plt = None\<close>
  raises \<^verbatim>\<open>TypeError\<close> (the error the source uses for an invalid argument) and leaves
  the state as it was: no figure and no axes is created.
\<close>

theorem plot_without_engine_raises:
  "plot py A None s c kwargs w = (Inl TypeError, w)"
  by (simp add: plot_def)

text \<open>
  C2. For a points array with at least two columns, a plotting handle and no keyword
  option at all, the call returns a pair of handles, and both designate objects that
  exist in the state the call leaves behind: the figure, and axes of that figure.
\<close>

theorem plot_default_returns_handles:
  assumes "2 \<le> shape1 A"
  shows "\<exists>fig ax w'. plot py A (Some engine) s c Map.empty w = (Inr (fig, ax), w') \<and>
           fig < length (figures w') \<and> fst ax = fig \<and>
           snd ax < length (fig_axes (the_figure w' fig))"
proof (cases "shape1 A < 3")
  case True
  from assms have m: "0 < shape1 A" "1 < shape1 A" by simp_all
  note r = plot_2d_returns [OF True default_columns(1) [OF m(1)] default_columns(2) [OF m(2)]
      default_bounds(1) default_bounds(2) default_labels(1) default_labels(2),
      where engine = engine and s = s and c = c and py = py and w = w]
  show ?thesis by (simp add: r the_figure_def)
next
  case False
  then have m: "0 < shape1 A" "1 < shape1 A" "2 < shape1 A" by simp_all
  note r = plot_3d_returns [OF False default_columns(1) [OF m(1)] default_columns(2) [OF m(2)]
      default_columns(3) [OF m(3)] default_bounds default_labels default_euler,
      where engine = engine and s = s and c = c and py = py and w = w]
  show ?thesis by (simp add: r the_figure_def)
qed

theorem plot_default_returns_handles_witness:
  "2 \<le> shape1 front3 \<and>
   (\<exists>fig ax w'. plot example_python front3 (Some example_engine) 1 ''tab:blue'' Map.empty world_init =
        (Inr (fig, ax), w') \<and>
      fig < length (figures w') \<and> fst ax = fig \<and>
      snd ax < length (fig_axes (the_figure w' fig)))"
proof -
  have h: "2 \<le> shape1 front3" by (simp add: example_shapes)
  from plot_default_returns_handles [OF h, of example_python example_engine 1 "''tab:blue''" world_init] h
  show ?thesis by blast
qed

text \<open>
  C3. For a points array with fewer than three columns (so also with exactly two), a call
  that returns has made a new figure whose only axes are the returned ones. The first two
  entries \<open>i0\<close> and \<open>i1\<close> of the option \<^verbatim>\<open>axes\<close> (0 and 1 when the option is absent) are
  integers that select columns of \<open>A\<close>, counting from the end when negative. The axes are
  rectilinear (2-D) and hold one scatter of exactly these two columns of \<open>A\<close> with the
  given size and colour, and neither a Z bound nor a Z label has been set on them.
\<close>

theorem plot_two_columns:
  assumes "shape1 A < 3"
    and "plot py A (Some engine) s c kwargs w = (Inr (fig, ax), w')"
  shows "\<exists>i0 i1.
           (kwargs ''axes'' = None \<longrightarrow> i0 = 0 \<and> i1 = 1) \<and>
           (\<forall>v. kwargs ''axes'' = Some v \<longrightarrow>
              (\<exists>xs. v = PyInts xs \<and> 1 < length xs \<and> i0 = xs ! 0 \<and> i1 = xs ! 1)) \<and>
           - int (shape1 A) \<le> i0 \<and> i0 < int (shape1 A) \<and>
           - int (shape1 A) \<le> i1 \<and> i1 < int (shape1 A) \<and>
           fig = length (figures w) \<and>
           fig_axes (the_figure w' fig) = [the_axes w' ax] \<and>
           projection (the_axes w' ax) = Rectilinear \<and>
           collections (the_axes w' ax) =
             [\<lparr>coords = [columns A ! nat (i0 mod int (shape1 A)),
                         columns A ! nat (i1 mod int (shape1 A))],
               sizes = s, colors = c\<rparr>] \<and>
           ax_zbound (the_axes w' ax) = None \<and>
           ax_zlabel (the_axes w' ax) = None"
proof -
  from plot_2d_succeeds [OF assms(1) assms(2)] obtain x y xb yb lx ly where
    e: "selected A (axes (resolve kwargs)) 0 = Inr x"
      "selected A (axes (resolve kwargs)) 1 = Inr y"
      "new_bound engine (auto_bound engine XAxis [\<lparr>coords = [x, y], sizes = s, colors = c\<rparr>])
         (bound_arg (xbound (resolve kwargs))
           (auto_bound engine XAxis [\<lparr>coords = [x, y], sizes = s, colors = c\<rparr>])) = Inr xb"
      "new_bound engine (auto_bound engine YAxis [\<lparr>coords = [x, y], sizes = s, colors = c\<rparr>])
         (bound_arg (ybound (resolve kwargs))
           (auto_bound engine YAxis [\<lparr>coords = [x, y], sizes = s, colors = c\<rparr>])) = Inr yb"
      "label_text py (label_prefix (resolve kwargs)) (axes (resolve kwargs)) 0 = Inr lx"
      "label_text py (label_prefix (resolve kwargs)) (axes (resolve kwargs)) 1 = Inr ly"
    by blast
  from selected_Inr [OF e(1)] obtain i0 where
    i0: "getitem (axes (resolve kwargs)) 0 = Inr (ItemInt i0)"
      "- int (shape1 A) \<le> i0" "i0 < int (shape1 A)"
      "x = columns A ! nat (i0 mod int (shape1 A))"
    by blast
  from selected_Inr [OF e(2)] obtain i1 where
    i1: "getitem (axes (resolve kwargs)) 1 = Inr (ItemInt i1)"
      "- int (shape1 A) \<le> i1" "i1 < int (shape1 A)"
      "y = columns A ! nat (i1 mod int (shape1 A))"
    by blast
  from option_entry [OF i0(1) [unfolded resolve_options]]
    option_entry [OF i1(1) [unfolded resolve_options]]
  have k: "kwargs ''axes'' = None \<longrightarrow> i0 = 0 \<and> i1 = 1"
    "\<forall>v. kwargs ''axes'' = Some v \<longrightarrow>
       (\<exists>xs. v = PyInts xs \<and> 1 < length xs \<and> i0 = xs ! 0 \<and> i1 = xs ! 1)"
    by auto
  from plot_2d_returns [OF assms(1) e, where w = w] assms(2)
  have r: "fig = length (figures w)"
    "fig_axes (the_figure w' fig) = [the_axes w' ax]"
    "projection (the_axes w' ax) = Rectilinear"
    "collections (the_axes w' ax) =
       [\<lparr>coords = [columns A ! nat (i0 mod int (shape1 A)),
                   columns A ! nat (i1 mod int (shape1 A))],
         sizes = s, colors = c\<rparr>]"
    "ax_zbound (the_axes w' ax) = None"
    "ax_zlabel (the_axes w' ax) = None"
    by (auto simp: the_axes_def the_figure_def i0(4) i1(4))
  show ?thesis
    apply (rule exI [of _ i0], rule exI [of _ i1])
    using k i0(2,3) i1(2,3) r
    apply -
    apply (intro conjI)
    apply assumption+
    done
qed

theorem plot_two_columns_witness:
  "shape1 front2 < 3 \<and>
   run_swapped = (Inr (0, (0, 0)), snd run_swapped) \<and>
   swapped ''axes'' = Some (PyInts [1, - 2]) \<and>
   projection (the_axes (snd run_swapped) (0, 0)) = Rectilinear \<and>
   collections (the_axes (snd run_swapped) (0, 0)) =
     [\<lparr>coords = [[3, 4], [1, 2]], sizes = 1, colors = ''tab:blue''\<rparr>] \<and>
   ax_zbound (the_axes (snd run_swapped) (0, 0)) = None \<and>
   ax_zlabel (the_axes (snd run_swapped) (0, 0)) = None"
proof -
  have h: "shape1 front2 < 3" by (simp add: example_shapes)
  have k: "swapped ''axes'' = Some (PyInts [1, - 2])" by (simp add: swapped_def)
  from plot_two_columns [OF h run_swapped_returns [unfolded run_swapped_def], folded run_swapped_def]
  obtain i0 i1 where
    a: "\<forall>v. swapped ''axes'' = Some v \<longrightarrow>
          (\<exists>xs. v = PyInts xs \<and> 1 < length xs \<and> i0 = xs ! 0 \<and> i1 = xs ! 1)"
    and p: "projection (the_axes (snd run_swapped) (0, 0)) = Rectilinear"
    and c: "collections (the_axes (snd run_swapped) (0, 0)) =
       [\<lparr>coords = [columns front2 ! nat (i0 mod int (shape1 front2)),
                   columns front2 ! nat (i1 mod int (shape1 front2))],
         sizes = 1, colors = ''tab:blue''\<rparr>]"
    and z: "ax_zbound (the_axes (snd run_swapped) (0, 0)) = None"
      "ax_zlabel (the_axes (snd run_swapped) (0, 0)) = None"
    by blast
  from a k have i: "i0 = 1" "i1 = - 2" by auto
  have "columns front2 ! nat (1 mod int (shape1 front2)) = [3, 4]"
    "columns front2 ! nat (- 2 mod int (shape1 front2)) = [1, 2]"
    by (simp_all add: shape1_def front2_def)
  with c i have c': "collections (the_axes (snd run_swapped) (0, 0)) =
      [\<lparr>coords = [[3, 4], [1, 2]], sizes = 1, colors = ''tab:blue''\<rparr>]"
    by simp
  from h run_swapped_returns k p c' z show ?thesis
    apply -
    apply (intro conjI)
    apply assumption+
    done
qed

text \<open>
  C4. For a points array with three or more columns, a call that returns has made a new
  figure and returns 3-D axes. The first three entries \<open>i0\<close>, \<open>i1\<close>, \<open>i2\<close> of the option
  \<^verbatim>\<open>axes\<close> (0, 1, 2 when the option is absent) are integers that select columns of \<open>A\<close>,
  and the axes hold one scatter of exactly these three columns with the given size and
  colour. The option \<^verbatim>\<open>label_prefix\<close> is a string (\<^verbatim>\<open>$f_{:d}$\<close> when absent), and the X,
  Y and Z labels are what \<^verbatim>\<open>str.format\<close> makes of it with \<open>i0 + 1\<close>, \<open>i1 + 1\<close> and
  \<open>i2 + 1\<close>: for the default template, \<^verbatim>\<open>$f_\<close>, the number in decimal, \<^verbatim>\<open>$\<close>. Each label
  is set with the option \<^verbatim>\<open>label_fontsize\<close> (\<^verbatim>\<open>large\<close> when absent) as its font size, and
  label rotation has been switched off on all three axes.
\<close>

theorem plot_three_columns:
  assumes "3 \<le> shape1 A"
    and "plot py A (Some engine) s c kwargs w = (Inr (fig, ax), w')"
  shows "\<exists>template i0 i1 i2 lx ly lz.
           (kwargs ''label_prefix'' = None \<longrightarrow> template = ''$f_{:d}$'') \<and>
           (\<forall>v. kwargs ''label_prefix'' = Some v \<longrightarrow> v = PyStr template) \<and>
           (kwargs ''axes'' = None \<longrightarrow> i0 = 0 \<and> i1 = 1 \<and> i2 = 2) \<and>
           (\<forall>v. kwargs ''axes'' = Some v \<longrightarrow>
              (\<exists>xs. v = PyInts xs \<and> 2 < length xs \<and>
                 i0 = xs ! 0 \<and> i1 = xs ! 1 \<and> i2 = xs ! 2)) \<and>
           - int (shape1 A) \<le> i0 \<and> i0 < int (shape1 A) \<and>
           - int (shape1 A) \<le> i1 \<and> i1 < int (shape1 A) \<and>
           - int (shape1 A) \<le> i2 \<and> i2 < int (shape1 A) \<and>
           format py template (i0 + 1) = Inr lx \<and>
           format py template (i1 + 1) = Inr ly \<and>
           format py template (i2 + 1) = Inr lz \<and>
           (kwargs ''label_prefix'' = None \<longrightarrow>
              lx = ''$f_'' @ str_int (i0 + 1) @ ''$'' \<and>
              ly = ''$f_'' @ str_int (i1 + 1) @ ''$'' \<and>
              lz = ''$f_'' @ str_int (i2 + 1) @ ''$'') \<and>
           fig = length (figures w) \<and>
           projection (the_axes w' ax) = Projection3D \<and>
           collections (the_axes w' ax) =
             [\<lparr>coords = [columns A ! nat (i0 mod int (shape1 A)),
                         columns A ! nat (i1 mod int (shape1 A)),
                         columns A ! nat (i2 mod int (shape1 A))],
               sizes = s, colors = c\<rparr>] \<and>
           ax_xlabel (the_axes w' ax) =
             Some (lx, case kwargs ''label_fontsize'' of None \<Rightarrow> PyStr ''large'' | Some v \<Rightarrow> v) \<and>
           ax_ylabel (the_axes w' ax) =
             Some (ly, case kwargs ''label_fontsize'' of None \<Rightarrow> PyStr ''large'' | Some v \<Rightarrow> v) \<and>
           ax_zlabel (the_axes w' ax) =
             Some (lz, case kwargs ''label_fontsize'' of None \<Rightarrow> PyStr ''large'' | Some v \<Rightarrow> v) \<and>
           ax_x_rotate_label (the_axes w' ax) = Some False \<and>
           ax_y_rotate_label (the_axes w' ax) = Some False \<and>
           ax_z_rotate_label (the_axes w' ax) = Some False"
proof -
  from assms(1) have wide: "\<not> shape1 A < 3" by simp
  from plot_3d_succeeds [OF wide assms(2)] obtain x y z xb yb zb lx ly lz elev azim where
    e: "selected A (axes (resolve kwargs)) 0 = Inr x"
      "selected A (axes (resolve kwargs)) 1 = Inr y"
      "selected A (axes (resolve kwargs)) 2 = Inr z"
      "new_bound engine (auto_bound engine XAxis [\<lparr>coords = [x, y, z], sizes = s, colors = c\<rparr>])
         (bound_arg (xbound (resolve kwargs))
           (auto_bound engine XAxis [\<lparr>coords = [x, y, z], sizes = s, colors = c\<rparr>])) = Inr xb"
      "new_bound engine (auto_bound engine YAxis [\<lparr>coords = [x, y, z], sizes = s, colors = c\<rparr>])
         (bound_arg (ybound (resolve kwargs))
           (auto_bound engine YAxis [\<lparr>coords = [x, y, z], sizes = s, colors = c\<rparr>])) = Inr yb"
      "new_bound engine (auto_bound engine ZAxis [\<lparr>coords = [x, y, z], sizes = s, colors = c\<rparr>])
         (bound_arg (zbound (resolve kwargs))
           (auto_bound engine ZAxis [\<lparr>coords = [x, y, z], sizes = s, colors = c\<rparr>])) = Inr zb"
      "label_text py (label_prefix (resolve kwargs)) (axes (resolve kwargs)) 0 = Inr lx"
      "label_text py (label_prefix (resolve kwargs)) (axes (resolve kwargs)) 1 = Inr ly"
      "label_text py (label_prefix (resolve kwargs)) (axes (resolve kwargs)) 2 = Inr lz"
      "getitem (euler (resolve kwargs)) 1 = Inr elev"
      "getitem (euler (resolve kwargs)) 0 = Inr azim"
    by blast
  from selected_Inr [OF e(1)] obtain i0 where
    i0: "getitem (axes (resolve kwargs)) 0 = Inr (ItemInt i0)"
      "- int (shape1 A) \<le> i0" "i0 < int (shape1 A)"
      "x = columns A ! nat (i0 mod int (shape1 A))"
    by blast
  from selected_Inr [OF e(2)] obtain i1 where
    i1: "getitem (axes (resolve kwargs)) 1 = Inr (ItemInt i1)"
      "- int (shape1 A) \<le> i1" "i1 < int (shape1 A)"
      "y = columns A ! nat (i1 mod int (shape1 A))"
    by blast
  from selected_Inr [OF e(3)] obtain i2 where
    i2: "getitem (axes (resolve kwargs)) 2 = Inr (ItemInt i2)"
      "- int (shape1 A) \<le> i2" "i2 < int (shape1 A)"
      "z = columns A ! nat (i2 mod int (shape1 A))"
    by blast
  from option_entry [OF i0(1) [unfolded resolve_options]]
    option_entry [OF i1(1) [unfolded resolve_options]]
    option_entry [OF i2(1) [unfolded resolve_options]]
  have k: "kwargs ''axes'' = None \<longrightarrow> i0 = 0 \<and> i1 = 1 \<and> i2 = 2"
    "\<forall>v. kwargs ''axes'' = Some v \<longrightarrow>
       (\<exists>xs. v = PyInts xs \<and> 2 < length xs \<and> i0 = xs ! 0 \<and> i1 = xs ! 1 \<and> i2 = xs ! 2)"
    by auto
  from label_text_Inr [OF e(7)] i0(1) obtain template where
    t: "label_prefix (resolve kwargs) = PyStr template"
    and fx: "format py template (i0 + 1) = Inr lx"
    by auto
  from label_text_Inr [OF e(8)] i1(1) t have fy: "format py template (i1 + 1) = Inr ly"
    by auto
  from label_text_Inr [OF e(9)] i2(1) t have fz: "format py template (i2 + 1) = Inr lz"
    by auto
  from t have p: "kwargs ''label_prefix'' = None \<longrightarrow> template = ''$f_{:d}$''"
    "\<forall>v. kwargs ''label_prefix'' = Some v \<longrightarrow> v = PyStr template"
    by (auto simp: resolve_options)
  from p(1) fx fy fz
  have d: "kwargs ''label_prefix'' = None \<longrightarrow>
      lx = ''$f_'' @ str_int (i0 + 1) @ ''$'' \<and>
      ly = ''$f_'' @ str_int (i1 + 1) @ ''$'' \<and>
      lz = ''$f_'' @ str_int (i2 + 1) @ ''$''"
    by (auto simp: format_default)
  from plot_3d_returns [OF wide e, where w = w] assms(2)
  have r: "fig = length (figures w)"
    "projection (the_axes w' ax) = Projection3D"
    "collections (the_axes w' ax) =
       [\<lparr>coords = [columns A ! nat (i0 mod int (shape1 A)),
                   columns A ! nat (i1 mod int (shape1 A)),
                   columns A ! nat (i2 mod int (shape1 A))],
         sizes = s, colors = c\<rparr>]"
    "ax_xlabel (the_axes w' ax) =
       Some (lx, case kwargs ''label_fontsize'' of None \<Rightarrow> PyStr ''large'' | Some v \<Rightarrow> v)"
    "ax_ylabel (the_axes w' ax) =
       Some (ly, case kwargs ''label_fontsize'' of None \<Rightarrow> PyStr ''large'' | Some v \<Rightarrow> v)"
    "ax_zlabel (the_axes w' ax) =
       Some (lz, case kwargs ''label_fontsize'' of None \<Rightarrow> PyStr ''large'' | Some v \<Rightarrow> v)"
    "ax_x_rotate_label (the_axes w' ax) = Some False"
    "ax_y_rotate_label (the_axes w' ax) = Some False"
    "ax_z_rotate_label (the_axes w' ax) = Some False"
    by (auto simp: the_axes_def i0(4) i1(4) i2(4) resolve_options(2))
  show ?thesis
    apply (rule exI [of _ template], rule exI [of _ i0], rule exI [of _ i1], rule exI [of _ i2])
    apply (rule exI [of _ lx], rule exI [of _ ly], rule exI [of _ lz])
    using p k i0(2,3) i1(2,3) i2(2,3) fx fy fz d r
    apply -
    apply (intro conjI)
    apply assumption+
    done
qed

theorem plot_three_columns_witness:
  "3 \<le> shape1 front3 \<and>
   run_styled = (Inr (0, (0, 0)), snd run_styled) \<and>
   styled ''axes'' = Some (PyInts [2, 0, - 2]) \<and>
   styled ''label_prefix'' = Some (PyStr ''g{}'') \<and>
   styled ''label_fontsize'' = Some (PyInt 12) \<and>
   projection (the_axes (snd run_styled) (0, 0)) = Projection3D \<and>
   collections (the_axes (snd run_styled) (0, 0)) =
     [\<lparr>coords = [[5, 6], [1, 2], [3, 4]], sizes = 1, colors = ''tab:blue''\<rparr>] \<and>
   ax_xlabel (the_axes (snd run_styled) (0, 0)) = Some (''g3'', PyInt 12) \<and>
   ax_ylabel (the_axes (snd run_styled) (0, 0)) = Some (''g1'', PyInt 12) \<and>
   ax_zlabel (the_axes (snd run_styled) (0, 0)) = Some (''g-1'', PyInt 12) \<and>
   ax_x_rotate_label (the_axes (snd run_styled) (0, 0)) = Some False \<and>
   ax_y_rotate_label (the_axes (snd run_styled) (0, 0)) = Some False \<and>
   ax_z_rotate_label (the_axes (snd run_styled) (0, 0)) = Some False \<and>
   run_default3 = (Inr (0, (0, 0)), snd run_default3) \<and>
   collections (the_axes (snd run_default3) (0, 0)) =
     [\<lparr>coords = [[1, 2], [3, 4], [5, 6]], sizes = 1, colors = ''tab:blue''\<rparr>] \<and>
   ax_xlabel (the_axes (snd run_default3) (0, 0)) = Some (''$f_1$'', PyStr ''large'') \<and>
   ax_ylabel (the_axes (snd run_default3) (0, 0)) = Some (''$f_2$'', PyStr ''large'') \<and>
   ax_zlabel (the_axes (snd run_default3) (0, 0)) = Some (''$f_3$'', PyStr ''large'')"
proof -
  have h: "3 \<le> shape1 front3" by (simp add: example_shapes)
  have k: "styled ''axes'' = Some (PyInts [2, 0, - 2])"
    "styled ''label_prefix'' = Some (PyStr ''g{}'')"
    "styled ''label_fontsize'' = Some (PyInt 12)"
    by (simp_all add: styled_def)
  have cols: "columns front3 ! nat (2 mod int (shape1 front3)) = [5, 6]"
    "columns front3 ! nat (0 mod int (shape1 front3)) = [1, 2]"
    "columns front3 ! nat (- 2 mod int (shape1 front3)) = [3, 4]"
    "columns front3 ! nat (1 mod int (shape1 front3)) = [3, 4]"
    by (simp_all add: shape1_def front3_def)
  have f: "format example_python ''g{}'' (2 + 1) = Inr ''g3''"
    "format example_python ''g{}'' (0 + 1) = Inr ''g1''"
    "format example_python ''g{}'' (- 2 + 1) = Inr ''g-1''"
    by (simp_all add: format_def emit_def bindS_def str_int_def digits_nat_small digit_char_def)
  have n: "''$f_'' @ str_int (0 + 1) @ ''$'' = ''$f_1$''"
    "''$f_'' @ str_int (1 + 1) @ ''$'' = ''$f_2$''"
    "''$f_'' @ str_int (2 + 1) @ ''$'' = ''$f_3$''"
    by (simp_all add: str_int_def digits_nat_small digit_char_def)
  from plot_three_columns [OF h run_styled_returns [unfolded run_styled_def], folded run_styled_def]
  obtain template i0 i1 i2 lx ly lz where
    s1: "\<forall>v. styled ''label_prefix'' = Some v \<longrightarrow> v = PyStr template"
    and s2: "\<forall>v. styled ''axes'' = Some v \<longrightarrow>
          (\<exists>xs. v = PyInts xs \<and> 2 < length xs \<and> i0 = xs ! 0 \<and> i1 = xs ! 1 \<and> i2 = xs ! 2)"
    and s3: "format example_python template (i0 + 1) = Inr lx"
      "format example_python template (i1 + 1) = Inr ly"
      "format example_python template (i2 + 1) = Inr lz"
    and s4: "projection (the_axes (snd run_styled) (0, 0)) = Projection3D"
      "collections (the_axes (snd run_styled) (0, 0)) =
         [\<lparr>coords = [columns front3 ! nat (i0 mod int (shape1 front3)),
                     columns front3 ! nat (i1 mod int (shape1 front3)),
                     columns front3 ! nat (i2 mod int (shape1 front3))],
           sizes = 1, colors = ''tab:blue''\<rparr>]"
      "ax_xlabel (the_axes (snd run_styled) (0, 0)) =
         Some (lx, case styled ''label_fontsize'' of None \<Rightarrow> PyStr ''large'' | Some v \<Rightarrow> v)"
      "ax_ylabel (the_axes (snd run_styled) (0, 0)) =
         Some (ly, case styled ''label_fontsize'' of None \<Rightarrow> PyStr ''large'' | Some v \<Rightarrow> v)"
      "ax_zlabel (the_axes (snd run_styled) (0, 0)) =
         Some (lz, case styled ''label_fontsize'' of None \<Rightarrow> PyStr ''large'' | Some v \<Rightarrow> v)"
      "ax_x_rotate_label (the_axes (snd run_styled) (0, 0)) = Some False"
      "ax_y_rotate_label (the_axes (snd run_styled) (0, 0)) = Some False"
      "ax_z_rotate_label (the_axes (snd run_styled) (0, 0)) = Some False"
    by blast
  from s1 s2 k have i: "template = ''g{}''" "i0 = 2" "i1 = 0" "i2 = - 2" by auto
  from s3 i f have l: "lx = ''g3''" "ly = ''g1''" "lz = ''g-1''" by simp_all
  have styled_part:
    "projection (the_axes (snd run_styled) (0, 0)) = Projection3D"
    "collections (the_axes (snd run_styled) (0, 0)) =
       [\<lparr>coords = [[5, 6], [1, 2], [3, 4]], sizes = 1, colors = ''tab:blue''\<rparr>]"
    "ax_xlabel (the_axes (snd run_styled) (0, 0)) = Some (''g3'', PyInt 12)"
    "ax_ylabel (the_axes (snd run_styled) (0, 0)) = Some (''g1'', PyInt 12)"
    "ax_zlabel (the_axes (snd run_styled) (0, 0)) = Some (''g-1'', PyInt 12)"
    "ax_x_rotate_label (the_axes (snd run_styled) (0, 0)) = Some False"
    "ax_y_rotate_label (the_axes (snd run_styled) (0, 0)) = Some False"
    "ax_z_rotate_label (the_axes (snd run_styled) (0, 0)) = Some False"
    using s4 i l k cols by simp_all
  from plot_three_columns [OF h run_default3_returns [unfolded run_default3_def],
      folded run_default3_def]
  obtain j0 j1 j2 mx my mz where
    d1: "(Map.empty :: kwargs) ''axes'' = None \<longrightarrow> j0 = 0 \<and> j1 = 1 \<and> j2 = 2"
    and d2: "(Map.empty :: kwargs) ''label_prefix'' = None \<longrightarrow>
        mx = ''$f_'' @ str_int (j0 + 1) @ ''$'' \<and>
        my = ''$f_'' @ str_int (j1 + 1) @ ''$'' \<and>
        mz = ''$f_'' @ str_int (j2 + 1) @ ''$''"
    and d3: "collections (the_axes (snd run_default3) (0, 0)) =
         [\<lparr>coords = [columns front3 ! nat (j0 mod int (shape1 front3)),
                     columns front3 ! nat (j1 mod int (shape1 front3)),
                     columns front3 ! nat (j2 mod int (shape1 front3))],
           sizes = 1, colors = ''tab:blue''\<rparr>]"
      "ax_xlabel (the_axes (snd run_default3) (0, 0)) =
         Some (mx, case (Map.empty :: kwargs) ''label_fontsize'' of
                     None \<Rightarrow> PyStr ''large'' | Some v \<Rightarrow> v)"
      "ax_ylabel (the_axes (snd run_default3) (0, 0)) =
         Some (my, case (Map.empty :: kwargs) ''label_fontsize'' of
                     None \<Rightarrow> PyStr ''large'' | Some v \<Rightarrow> v)"
      "ax_zlabel (the_axes (snd run_default3) (0, 0)) =
         Some (mz, case (Map.empty :: kwargs) ''label_fontsize'' of
                     None \<Rightarrow> PyStr ''large'' | Some v \<Rightarrow> v)"
    by blast
  from d1 have j: "j0 = 0" "j1 = 1" "j2 = 2" by simp_all
  from d2 j n have m: "mx = ''$f_1$''" "my = ''$f_2$''" "mz = ''$f_3$''" by simp_all
  have default_part:
    "collections (the_axes (snd run_default3) (0, 0)) =
       [\<lparr>coords = [[1, 2], [3, 4], [5, 6]], sizes = 1, colors = ''tab:blue''\<rparr>]"
    "ax_xlabel (the_axes (snd run_default3) (0, 0)) = Some (''$f_1$'', PyStr ''large'')"
    "ax_ylabel (the_axes (snd run_default3) (0, 0)) = Some (''$f_2$'', PyStr ''large'')"
    "ax_zlabel (the_axes (snd run_default3) (0, 0)) = Some (''$f_3$'', PyStr ''large'')"
    using d3 j m cols by simp_all
  from h run_styled_returns k styled_part run_default3_returns default_part
  show ?thesis
    apply -
    apply (intro conjI)
    apply assumption+
    done
qed

lemma plot_returns_bounds:
  assumes "plot py A (Some engine) s c kwargs w = (Inr (fig, ax), w')"
  shows "new_bound engine (auto_bound engine XAxis (collections (the_axes w' ax)))
           (bound_arg (xbound (resolve kwargs))
             (auto_bound engine XAxis (collections (the_axes w' ax)))) =
           Inr (get_xbound engine ax w') \<and>
         new_bound engine (auto_bound engine YAxis (collections (the_axes w' ax)))
           (bound_arg (ybound (resolve kwargs))
             (auto_bound engine YAxis (collections (the_axes w' ax)))) =
           Inr (get_ybound engine ax w') \<and>
         (shape1 A < 3 \<longrightarrow> ax_zbound (the_axes w' ax) = None) \<and>
         (\<not> shape1 A < 3 \<longrightarrow>
           new_bound engine (auto_bound engine ZAxis (collections (the_axes w' ax)))
             (bound_arg (zbound (resolve kwargs))
               (auto_bound engine ZAxis (collections (the_axes w' ax)))) =
             Inr (get_zbound engine ax w'))"
proof -
  have "?thesis" if narrow: "shape1 A < 3"
  proof -
    from plot_2d_succeeds [OF narrow assms] obtain x y xb yb lx ly where
      e: "selected A (axes (resolve kwargs)) 0 = Inr x"
        "selected A (axes (resolve kwargs)) 1 = Inr y"
        "new_bound engine (auto_bound engine XAxis [\<lparr>coords = [x, y], sizes = s, colors = c\<rparr>])
           (bound_arg (xbound (resolve kwargs))
             (auto_bound engine XAxis [\<lparr>coords = [x, y], sizes = s, colors = c\<rparr>])) = Inr xb"
        "new_bound engine (auto_bound engine YAxis [\<lparr>coords = [x, y], sizes = s, colors = c\<rparr>])
           (bound_arg (ybound (resolve kwargs))
             (auto_bound engine YAxis [\<lparr>coords = [x, y], sizes = s, colors = c\<rparr>])) = Inr yb"
        "label_text py (label_prefix (resolve kwargs)) (axes (resolve kwargs)) 0 = Inr lx"
        "label_text py (label_prefix (resolve kwargs)) (axes (resolve kwargs)) 1 = Inr ly"
      by blast
    from plot_2d_returns [OF narrow e, where w = w] assms
    have r: "get_xbound engine ax w' = xb" "get_ybound engine ax w' = yb"
      "collections (the_axes w' ax) = [\<lparr>coords = [x, y], sizes = s, colors = c\<rparr>]"
      "ax_zbound (the_axes w' ax) = None"
      by (auto simp: the_axes_def get_xbound_def get_ybound_def)
    from e(3,4) narrow show ?thesis by (simp add: r)
  qed
  moreover have "?thesis" if wide: "\<not> shape1 A < 3"
  proof -
    from plot_3d_succeeds [OF wide assms] obtain x y z xb yb zb lx ly lz elev azim where
      e: "selected A (axes (resolve kwargs)) 0 = Inr x"
        "selected A (axes (resolve kwargs)) 1 = Inr y"
        "selected A (axes (resolve kwargs)) 2 = Inr z"
        "new_bound engine (auto_bound engine XAxis [\<lparr>coords = [x, y, z], sizes = s, colors = c\<rparr>])
           (bound_arg (xbound (resolve kwargs))
             (auto_bound engine XAxis [\<lparr>coords = [x, y, z], sizes = s, colors = c\<rparr>])) = Inr xb"
        "new_bound engine (auto_bound engine YAxis [\<lparr>coords = [x, y, z], sizes = s, colors = c\<rparr>])
           (bound_arg (ybound (resolve kwargs))
             (auto_bound engine YAxis [\<lparr>coords = [x, y, z], sizes = s, colors = c\<rparr>])) = Inr yb"
        "new_bound engine (auto_bound engine ZAxis [\<lparr>coords = [x, y, z], sizes = s, colors = c\<rparr>])
           (bound_arg (zbound (resolve kwargs))
             (auto_bound engine ZAxis [\<lparr>coords = [x, y, z], sizes = s, colors = c\<rparr>])) = Inr zb"
        "label_text py (label_prefix (resolve kwargs)) (axes (resolve kwargs)) 0 = Inr lx"
        "label_text py (label_prefix (resolve kwargs)) (axes (resolve kwargs)) 1 = Inr ly"
        "label_text py (label_prefix (resolve kwargs)) (axes (resolve kwargs)) 2 = Inr lz"
        "getitem (euler (resolve kwargs)) 1 = Inr elev"
        "getitem (euler (resolve kwargs)) 0 = Inr azim"
      by blast
    from plot_3d_returns [OF wide e, where w = w] assms
    have r: "get_xbound engine ax w' = xb" "get_ybound engine ax w' = yb"
      "get_zbound engine ax w' = zb"
      "collections (the_axes w' ax) = [\<lparr>coords = [x, y, z], sizes = s, colors = c\<rparr>]"
      by (auto simp: the_axes_def get_xbound_def get_ybound_def get_zbound_def)
    from e(4,5,6) wide show ?thesis by (simp add: r)
  qed
  ultimately show ?thesis by blast
qed




text \<open>
  C6. After a call that returns, an axis whose bound option was left unset (is
  \<^verbatim>\<open>None\<close>) has on the returned axes the bound the library computed itself from what was
  scattered: the value read with \<^verbatim>\<open>get_xbound\<close> was written back unchanged. For
  \<^verbatim>\<open>zbound\<close> this is stated in the 3-D branch, the only one that touches it. The calls
  that return include those whose label template is outside the fragment of
  \<^verbatim>\<open>str.format\<close> written out above, such as \<^verbatim>\<open>{0}\<close>.
\<close>

theorem plot_unset_bounds:
  assumes "plot py A (Some engine) s c kwargs w = (Inr (fig, ax), w')"
  shows "(xbound (resolve kwargs) = PyNone \<longrightarrow>
            get_xbound engine ax w' =
              auto_bound engine XAxis (collections (the_axes w' ax))) \<and>
         (ybound (resolve kwargs) = PyNone \<longrightarrow>
            get_ybound engine ax w' =
              auto_bound engine YAxis (collections (the_axes w' ax))) \<and>
         (zbound (resolve kwargs) = PyNone \<and> 3 \<le> shape1 A \<longrightarrow>
            get_zbound engine ax w' =
              auto_bound engine ZAxis (collections (the_axes w' ax)))"
proof -
  note bs = plot_returns_bounds [OF assms]
  note b = bs [THEN conjunct1] bs [THEN conjunct2, THEN conjunct1]
    bs [THEN conjunct2, THEN conjunct2, THEN conjunct1]
    bs [THEN conjunct2, THEN conjunct2, THEN conjunct2]
  have x: "get_xbound engine ax w' = auto_bound engine XAxis (collections (the_axes w' ax))"
    if "xbound (resolve kwargs) = PyNone"
    using unset_bound_result [OF b(1) that] by simp
  have y: "get_ybound engine ax w' = auto_bound engine YAxis (collections (the_axes w' ax))"
    if "ybound (resolve kwargs) = PyNone"
    using unset_bound_result [OF b(2) that] by simp
  have z: "get_zbound engine ax w' = auto_bound engine ZAxis (collections (the_axes w' ax))"
    if "zbound (resolve kwargs) = PyNone" "3 \<le> shape1 A"
  proof -
    from that(2) b(4) have
      "new_bound engine (auto_bound engine ZAxis (collections (the_axes w' ax)))
         (bound_arg (zbound (resolve kwargs))
           (auto_bound engine ZAxis (collections (the_axes w' ax)))) =
         Inr (get_zbound engine ax w')"
      by simp
    from unset_bound_result [OF this that(1)] show ?thesis by simp
  qed
  from x y z show ?thesis by blast
qed

theorem plot_unset_bounds_witness:
  "run_x_only = (Inr (0, (0, 0)), snd run_x_only) \<and>
   x_only ''ybound'' = None \<and> x_only ''zbound'' = Some PyNone \<and>
   ybound (resolve x_only) = PyNone \<and> zbound (resolve x_only) = PyNone \<and>
   3 \<le> shape1 front3 \<and>
   get_ybound example_engine (0, 0) (snd run_x_only) = (0, 2) \<and>
   get_zbound example_engine (0, 0) (snd run_x_only) = (0, 3) \<and>
   run_positional = (Inr (0, (0, 0)), snd run_positional) \<and>
   positional ''label_prefix'' = Some (PyStr ''{0}'') \<and>
   xbound (resolve positional) = PyNone \<and>
   get_xbound example_engine (0, 0) (snd run_positional) = (0, 1)"
proof -
  have k: "x_only ''ybound'' = None" "x_only ''zbound'' = Some PyNone"
    "ybound (resolve x_only) = PyNone" "zbound (resolve x_only) = PyNone"
    "3 \<le> shape1 front3" "positional ''label_prefix'' = Some (PyStr ''{0}'')"
    "xbound (resolve positional) = PyNone"
    by (simp_all add: x_only_def positional_def resolve_def kw_get_def example_shapes)
  from plot_unset_bounds [OF run_x_only_returns [unfolded run_x_only_def], folded run_x_only_def] k
  have a: "get_ybound example_engine (0, 0) (snd run_x_only) = (0, 2)"
    "get_zbound example_engine (0, 0) (snd run_x_only) = (0, 3)"
    by (simp_all add: example_engine_def)
  from plot_unset_bounds [OF run_positional_returns [unfolded run_positional_def],
      folded run_positional_def] k
  have b: "get_xbound example_engine (0, 0) (snd run_positional) = (0, 1)"
    by (simp add: example_engine_def)
  from run_x_only_returns k(1-5) a run_positional_returns k(6,7) b show ?thesis
    apply -
    apply (intro conjI)
    apply assumption+
    done
qed

text \<open>
  C7. In the 3-D branch a call that returns has set the view of the returned axes to the
  elevation \<^verbatim>\<open>euler[1]\<close> and the azimuth \<^verbatim>\<open>euler[0]\<close> of the option \<^verbatim>\<open>euler\<close>: for a
  tuple of integers given by the caller these are its second and its first entry, and
  when the option is absent the view is elevation 30 and azimuth -60.
\<close>

theorem plot_view_angle:
  assumes "3 \<le> shape1 A"
    and "plot py A (Some engine) s c kwargs w = (Inr (fig, ax), w')"
  shows "\<exists>elev azim.
           ax_view (the_axes w' ax) = Some (elev, azim) \<and>
           (kwargs ''euler'' = None \<longrightarrow> elev = ItemInt 30 \<and> azim = ItemInt (- 60)) \<and>
           (\<forall>v. kwargs ''euler'' = Some v \<longrightarrow>
              getitem v 1 = Inr elev \<and> getitem v 0 = Inr azim) \<and>
           (\<forall>es. kwargs ''euler'' = Some (PyInts es) \<longrightarrow>
              1 < length es \<and> elev = ItemInt (es ! 1) \<and> azim = ItemInt (es ! 0))"
proof -
  from assms(1) have wide: "\<not> shape1 A < 3" by simp
  from plot_3d_succeeds [OF wide assms(2)] obtain x y z xb yb zb lx ly lz elev azim where
    e: "selected A (axes (resolve kwargs)) 0 = Inr x"
      "selected A (axes (resolve kwargs)) 1 = Inr y"
      "selected A (axes (resolve kwargs)) 2 = Inr z"
      "new_bound engine (auto_bound engine XAxis [\<lparr>coords = [x, y, z], sizes = s, colors = c\<rparr>])
         (bound_arg (xbound (resolve kwargs))
           (auto_bound engine XAxis [\<lparr>coords = [x, y, z], sizes = s, colors = c\<rparr>])) = Inr xb"
      "new_bound engine (auto_bound engine YAxis [\<lparr>coords = [x, y, z], sizes = s, colors = c\<rparr>])
         (bound_arg (ybound (resolve kwargs))
           (auto_bound engine YAxis [\<lparr>coords = [x, y, z], sizes = s, colors = c\<rparr>])) = Inr yb"
      "new_bound engine (auto_bound engine ZAxis [\<lparr>coords = [x, y, z], sizes = s, colors = c\<rparr>])
         (bound_arg (zbound (resolve kwargs))
           (auto_bound engine ZAxis [\<lparr>coords = [x, y, z], sizes = s, colors = c\<rparr>])) = Inr zb"
      "label_text py (label_prefix (resolve kwargs)) (axes (resolve kwargs)) 0 = Inr lx"
      "label_text py (label_prefix (resolve kwargs)) (axes (resolve kwargs)) 1 = Inr ly"
      "label_text py (label_prefix (resolve kwargs)) (axes (resolve kwargs)) 2 = Inr lz"
      "getitem (euler (resolve kwargs)) 1 = Inr elev"
      "getitem (euler (resolve kwargs)) 0 = Inr azim"
    by blast
  from plot_3d_returns [OF wide e, where w = w] assms(2)
  have v: "ax_view (the_axes w' ax) = Some (elev, azim)"
    by (auto simp: the_axes_def)
  have d: "kwargs ''euler'' = None \<longrightarrow> elev = ItemInt 30 \<and> azim = ItemInt (- 60)"
    using e(10,11) by (auto simp: resolve_options getitem_def)
  have g: "\<forall>v. kwargs ''euler'' = Some v \<longrightarrow> getitem v 1 = Inr elev \<and> getitem v 0 = Inr azim"
    using e(10,11) by (auto simp: resolve_options)
  have t: "\<forall>es. kwargs ''euler'' = Some (PyInts es) \<longrightarrow>
      1 < length es \<and> elev = ItemInt (es ! 1) \<and> azim = ItemInt (es ! 0)"
    using e(10,11) by (auto simp: resolve_options getitem_def split: if_splits)
  show ?thesis
    apply (rule exI [of _ elev], rule exI [of _ azim])
    using v d g t
    apply -
    apply (intro conjI)
    apply assumption+
    done
qed

theorem plot_view_angle_witness:
  "3 \<le> shape1 front3 \<and>
   run_styled = (Inr (0, (0, 0)), snd run_styled) \<and>
   styled ''euler'' = Some (PyInts [60, 20]) \<and>
   ax_view (the_axes (snd run_styled) (0, 0)) = Some (ItemInt 20, ItemInt 60) \<and>
   run_default3 = (Inr (0, (0, 0)), snd run_default3) \<and>
   (Map.empty :: kwargs) ''euler'' = None \<and>
   ax_view (the_axes (snd run_default3) (0, 0)) = Some (ItemInt 30, ItemInt (- 60))"
proof -
  have h: "3 \<le> shape1 front3" by (simp add: example_shapes)
  have k: "styled ''euler'' = Some (PyInts [60, 20])" by (simp add: styled_def)
  from plot_view_angle [OF h run_styled_returns [unfolded run_styled_def], folded run_styled_def]
  obtain elev azim where
    "ax_view (the_axes (snd run_styled) (0, 0)) = Some (elev, azim)"
    "\<forall>es. styled ''euler'' = Some (PyInts es) \<longrightarrow>
       1 < length es \<and> elev = ItemInt (es ! 1) \<and> azim = ItemInt (es ! 0)"
    by blast
  with k have a: "ax_view (the_axes (snd run_styled) (0, 0)) = Some (ItemInt 20, ItemInt 60)"
    by auto
  from plot_view_angle [OF h run_default3_returns [unfolded run_default3_def],
      folded run_default3_def]
  have b: "ax_view (the_axes (snd run_default3) (0, 0)) = Some (ItemInt 30, ItemInt (- 60))"
    by auto
  have n: "(Map.empty :: kwargs) ''euler'' = None" by simp
  from h run_styled_returns k a run_default3_returns n b show ?thesis
    apply -
    apply (intro conjI)
    apply assumption+
    done
qed

lemma plot_keeps_new_figure:
  "length (figures (snd (plot py A (Some engine) s c kwargs w))) = Suc (length (figures w)) \<and>
   fig_suptitle (figures (snd (plot py A (Some engine) s c kwargs w)) ! length (figures w)) =
     (if title (resolve kwargs) = PyNone then None else Some (title (resolve kwargs)))"
  by (cases "title (resolve kwargs) = PyNone"; cases "shape1 A < 3")
     (simp_all add: plot_def Let_def fresh_simps bindS_def split: sum.splits split del: if_split)

lemma plot_returns_new_figure:
  assumes "plot py A (Some engine) s c kwargs w = (Inr (fig, ax), w')"
  shows "fig = length (figures w)"
proof (cases "shape1 A < 3")
  case True
  from plot_2d_succeeds [OF True assms] obtain x y xb yb lx ly where
    e: "selected A (axes (resolve kwargs)) 0 = Inr x"
      "selected A (axes (resolve kwargs)) 1 = Inr y"
      "new_bound engine (auto_bound engine XAxis [\<lparr>coords = [x, y], sizes = s, colors = c\<rparr>])
         (bound_arg (xbound (resolve kwargs))
           (auto_bound engine XAxis [\<lparr>coords = [x, y], sizes = s, colors = c\<rparr>])) = Inr xb"
      "new_bound engine (auto_bound engine YAxis [\<lparr>coords = [x, y], sizes = s, colors = c\<rparr>])
         (bound_arg (ybound (resolve kwargs))
           (auto_bound engine YAxis [\<lparr>coords = [x, y], sizes = s, colors = c\<rparr>])) = Inr yb"
      "label_text py (label_prefix (resolve kwargs)) (axes (resolve kwargs)) 0 = Inr lx"
      "label_text py (label_prefix (resolve kwargs)) (axes (resolve kwargs)) 1 = Inr ly"
    by blast
  from plot_2d_returns [OF True e, where w = w] assms show ?thesis by simp
next
  case False
  from plot_3d_succeeds [OF False assms] obtain x y z xb yb zb lx ly lz elev azim where
    e: "selected A (axes (resolve kwargs)) 0 = Inr x"
      "selected A (axes (resolve kwargs)) 1 = Inr y"
      "selected A (axes (resolve kwargs)) 2 = Inr z"
      "new_bound engine (auto_bound engine XAxis [\<lparr>coords = [x, y, z], sizes = s, colors = c\<rparr>])
         (bound_arg (xbound (resolve kwargs))
           (auto_bound engine XAxis [\<lparr>coords = [x, y, z], sizes = s, colors = c\<rparr>])) = Inr xb"
      "new_bound engine (auto_bound engine YAxis [\<lparr>coords = [x, y, z], sizes = s, colors = c\<rparr>])
         (bound_arg (ybound (resolve kwargs))
           (auto_bound engine YAxis [\<lparr>coords = [x, y, z], sizes = s, colors = c\<rparr>])) = Inr yb"
      "new_bound engine (auto_bound engine ZAxis [\<lparr>coords = [x, y, z], sizes = s, colors = c\<rparr>])
         (bound_arg (zbound (resolve kwargs))
           (auto_bound engine ZAxis [\<lparr>coords = [x, y, z], sizes = s, colors = c\<rparr>])) = Inr zb"
      "label_text py (label_prefix (resolve kwargs)) (axes (resolve kwargs)) 0 = Inr lx"
      "label_text py (label_prefix (resolve kwargs)) (axes (resolve kwargs)) 1 = Inr ly"
      "label_text py (label_prefix (resolve kwargs)) (axes (resolve kwargs)) 2 = Inr lz"
      "getitem (euler (resolve kwargs)) 1 = Inr elev"
      "getitem (euler (resolve kwargs)) 0 = Inr azim"
    by blast
  from plot_3d_returns [OF False e, where w = w] assms show ?thesis by simp
qed

text \<open>
  C8. A call with a plotting handle adds exactly one figure to the state, whether it
  returns or raises later on. That figure carries the value of the option \<^verbatim>\<open>title\<close> as
  its title when the option is set (is not \<^verbatim>\<open>None\<close>) and has no title otherwise; and a
  call that returns hands back that figure.
\<close>

theorem plot_title:
  assumes "plot py A (Some engine) s c kwargs w = (r, w')"
  shows "length (figures w') = Suc (length (figures w)) \<and>
         fig_suptitle (the_figure w' (length (figures w))) =
           (if title (resolve kwargs) = PyNone then None else Some (title (resolve kwargs))) \<and>
         (\<forall>fig ax. r = Inr (fig, ax) \<longrightarrow> fig = length (figures w))"
proof -
  from plot_keeps_new_figure [of py A engine s c kwargs w] assms
  have "length (figures w') = Suc (length (figures w))"
    "fig_suptitle (the_figure w' (length (figures w))) =
       (if title (resolve kwargs) = PyNone then None else Some (title (resolve kwargs)))"
    by (simp_all add: the_figure_def)
  moreover have "\<forall>fig ax. r = Inr (fig, ax) \<longrightarrow> fig = length (figures w)"
  proof (intro allI impI)
    fix fig ax
    assume "r = Inr (fig, ax)"
    with assms have "plot py A (Some engine) s c kwargs w = (Inr (fig, ax), w')" by simp
    then show "fig = length (figures w)" by (rule plot_returns_new_figure)
  qed
  ultimately show ?thesis by blast
qed

theorem plot_title_witness:
  "run_titled = (Inr (0, (0, 0)), snd run_titled) \<and>
   titled ''title'' = Some (PyStr ''Front'') \<and>
   length (figures (snd run_titled)) = 1 \<and>
   fig_suptitle (the_figure (snd run_titled) 0) = Some (PyStr ''Front'')"
proof -
  have k: "titled ''title'' = Some (PyStr ''Front'')" by (simp add: titled_def)
  have t: "title (resolve titled) = PyStr ''Front''"
    by (simp add: resolve_titled)
  have n: "length (figures (world_init :: (rat, nat, string) world)) = 0"
    by (simp add: world_init_def)
  from plot_title [OF run_titled_returns [unfolded run_titled_def], folded run_titled_def]
  have "length (figures (snd run_titled)) = 1"
    "fig_suptitle (the_figure (snd run_titled) 0) = Some (PyStr ''Front'')"
    by (simp_all add: t n)
  with run_titled_returns k show ?thesis
    apply -
    apply (intro conjI)
    apply assumption+
    done
qed

lemma plot_camera:
  "plot py A plt s c kwargs (w\<lparr>camera_angles := t\<rparr>) =
     (fst (plot py A plt s c kwargs w), (snd (plot py A plt s c kwargs w))\<lparr>camera_angles := t\<rparr>)"
proof (cases plt)
  case None
  then show ?thesis by (simp add: plot_def)
next
  case (Some engine)
  then show ?thesis
    by (cases "title (resolve kwargs) = PyNone"; cases "shape1 A < 3")
       (simp_all add: plot_def Let_def fresh_simps bindS_def split: sum.splits
          split del: if_split)
qed

text \<open>
  C9. \<^verbatim>\<open>plot\<close> never reads the table \<^verbatim>\<open>camera_angles\<close>: started from two states that
  differ only in the contents of the table, with the same arguments, it gives the same
  result (the same handles or the same error) and the same figures, axes and styling. It
  does not write the table either.
\<close>

theorem plot_ignores_camera_angles:
  "fst (plot py A plt s c kwargs (w\<lparr>camera_angles := t1\<rparr>)) =
     fst (plot py A plt s c kwargs (w\<lparr>camera_angles := t2\<rparr>)) \<and>
   figures (snd (plot py A plt s c kwargs (w\<lparr>camera_angles := t1\<rparr>))) =
     figures (snd (plot py A plt s c kwargs (w\<lparr>camera_angles := t2\<rparr>))) \<and>
   camera_angles (snd (plot py A plt s c kwargs (w\<lparr>camera_angles := t1\<rparr>))) = t1"
  by (simp add: plot_camera)

lemma resolve_restrict: "resolve (restrict_map kwargs config_keys) = resolve kwargs"
  by (simp add: resolve_def kw_get_def config_keys_def)

text \<open>
  C10. Keys of \<^verbatim>\<open>kwargs\<close> other than the eight options are ignored: a call gives the same
  result and the same state as the call on the dictionary with those keys removed, so
  no error is raised on their account.
\<close>

theorem plot_ignores_other_keys:
  "plot py A plt s c kwargs w = plot py A plt s c (restrict_map kwargs config_keys) w"
  unfolding plot_def resolve_restrict ..

end
